theory Spec2Isabelle
  imports Complex_Main "HOL-Library.Word" "HOL-Library.Multiset"
begin

section \<open>JavaScript strings\<close>

text \<open>
  A JavaScript string is a sequence of 16-bit code units. The regular expression of
  \<open>parseBase64\<close> and \<open>String.prototype.trim\<close> are defined on code units (neither
  uses the \<open>u\<close> flag), and both single out code units above U+00FF, so strings are
  modelled as lists of 16-bit words. \<open>str\<close> embeds an ASCII literal of the source.
\<close>

type_synonym jschar = "16 word"
type_synonym jsstring = "jschar list"

definition str :: "string \<Rightarrow> jsstring" where
  "str s = map of_char s"

text \<open>Truthiness of a \<open>string | null | undefined\<close> value: only a non-empty string is truthy.\<close>

definition truthy :: "jsstring option \<Rightarrow> bool" where
  "truthy v = (case v of None \<Rightarrow> False | Some s \<Rightarrow> s \<noteq> [])"

text \<open>
  The code units that \<open>trim\<close> strips: WhiteSpace (TAB, VT, FF, SP, NBSP, ZWNBSP and the
  category Zs) and LineTerminator (LF, CR, LS, PS) of ECMAScript.
\<close>

definition line_terminator :: "jschar \<Rightarrow> bool" where
  "line_terminator c \<longleftrightarrow> c = 0x000A \<or> c = 0x000D \<or> c = 0x2028 \<or> c = 0x2029"

definition white_space :: "jschar \<Rightarrow> bool" where
  "white_space c \<longleftrightarrow>
     c = 0x0009 \<or> c = 0x000B \<or> c = 0x000C \<or> c = 0x0020 \<or> c = 0x00A0 \<or> c = 0xFEFF \<or>
     c = 0x1680 \<or> (0x2000 \<le> c \<and> c \<le> 0x200A) \<or> c = 0x202F \<or> c = 0x205F \<or> c = 0x3000 \<or>
     line_terminator c"

definition trim :: "jsstring \<Rightarrow> jsstring" where
  "trim s = rev (dropWhile white_space (rev (dropWhile white_space s)))"

section \<open>The image generation client (services/geminiService)\<close>

subsection \<open>Errors, requests and responses\<close>

text \<open>
  \<open>Error m\<close> is \<open>new Error(m)\<close>; \<open>TypeError\<close> is what reading a property of
  \<open>undefined\<close> throws; \<open>ServiceError\<close> stands for whatever the transport layer of
  the external service rejects with.
\<close>

datatype error = Error jsstring | TypeError | ServiceError jsstring

record blob =
  mimeType :: jsstring
  data :: jsstring

text \<open>
  A content part of a request or a response. The code builds parts \<open>{text: ...}\<close> and
  \<open>{inlineData: {mimeType, data}}\<close> and reads only \<open>inlineData\<close> of the parts of a
  response. The declaration of the response type belongs to the external library; it is
  taken as the nesting the code walks through, each level optional as the code tests it.
\<close>

record part =
  part_text :: "jsstring option"
  inlineData :: "blob option"

record content =
  parts :: "part list option"

record candidate =
  content :: "content option"

record response =
  candidates :: "candidate list option"

text \<open>
  The external call \<open>ai.models.generateContent\<close> with the fixed model name: from the
  parts of the request to a response or a rejection.
\<close>

type_synonym service = "part list \<Rightarrow> error + response"

subsection \<open>parseBase64\<close>

fun strip_prefix :: "'a list \<Rightarrow> 'a list \<Rightarrow> 'a list option" where
  "strip_prefix [] ys = Some ys"
| "strip_prefix (x # xs) [] = None"
| "strip_prefix (x # xs) (y # ys) = (if x = y then strip_prefix xs ys else None)"

text \<open>The character class \<open>[A-Za-z-+\/]\<close>: letters, hyphen, plus and slash.\<close>

definition mime_char :: "jschar \<Rightarrow> bool" where
  "mime_char c \<longleftrightarrow>
     (0x41 \<le> c \<and> c \<le> 0x5A) \<or> (0x61 \<le> c \<and> c \<le> 0x7A) \<or> c = 0x2D \<or> c = 0x2B \<or> c = 0x2F"

text \<open>
  \<open>base64String.match(/^data:([A-Za-z-+\/]+);base64,(.+)$/)\<close>: the two capture groups,
  or \<open>None\<close> for \<open>null\<close>. The class does not contain \<open>;\<close>, so the first group can
  only be the longest run of class characters after \<open>data:\<close>; without the \<open>s\<close> flag
  the dot matches no line terminator, and without the \<open>m\<close> flag \<open>$\<close> is the end of
  the string, so the second group is the whole rest, free of line terminators.
\<close>

definition data_url_match :: "jsstring \<Rightarrow> (jsstring \<times> jsstring) option" where
  "data_url_match s =
     (case strip_prefix (str ''data:'') s of
        None \<Rightarrow> None
      | Some rest \<Rightarrow>
          (case strip_prefix (str '';base64,'') (dropWhile mime_char rest) of
             None \<Rightarrow> None
           | Some d \<Rightarrow>
               if takeWhile mime_char rest \<noteq> [] \<and> d \<noteq> [] \<and> \<not> list_ex line_terminator d
               then Some (takeWhile mime_char rest, d)
               else None))"

definition parseBase64 :: "jsstring \<Rightarrow> error + blob" where
  "parseBase64 base64String =
     (case data_url_match base64String of
        None \<Rightarrow> Inl (Error (str ''Invalid input string''))
      | Some (m, d) \<Rightarrow> Inr \<lparr>mimeType = m, data = d\<rparr>)"

subsection \<open>generateTestImage\<close>

text \<open>The template literal of line 42: the encoded-image convention of the output.\<close>

definition encodeImage :: "jsstring \<Rightarrow> jsstring \<Rightarrow> jsstring" where
  "encodeImage mime payload = str ''data:'' @ mime @ str '';base64,'' @ payload"

definition text_part :: "jsstring \<Rightarrow> part" where
  "text_part p = \<lparr>part_text = Some p, inlineData = None\<rparr>"

definition inline_part :: "blob \<Rightarrow> part" where
  "inline_part b = \<lparr>part_text = None, inlineData = Some b\<rparr>"

text \<open>Lines 19 to 29: the parts of the request, the reference image first when there is one.\<close>

definition build_parts :: "jsstring \<Rightarrow> jsstring option \<Rightarrow> error + part list" where
  "build_parts prompt referenceImage =
     (case referenceImage of
        None \<Rightarrow> Inr [text_part prompt]
      | Some r \<Rightarrow>
          if r = [] then Inr [text_part prompt]
          else (case parseBase64 r of
                  Inl e \<Rightarrow> Inl e
                | Inr b \<Rightarrow> Inr [inline_part b, text_part prompt]))"

text \<open>The loop of lines 40 to 44: the first part that carries inline data.\<close>

fun first_inline :: "part list \<Rightarrow> jsstring option" where
  "first_inline [] = None"
| "first_inline (p # ps) =
     (case inlineData p of
        Some b \<Rightarrow> Some (encodeImage (mimeType b) (data b))
      | None \<Rightarrow> first_inline ps)"

text \<open>
  Lines 39 to 47. An array is truthy also when it is empty, so on an empty
  \<open>candidates\<close> the guard goes on to read \<open>response.candidates[0].content\<close>, where
  \<open>response.candidates[0]\<close> is \<open>undefined\<close>: a TypeError.
\<close>

definition NO_IMAGE :: error where
  "NO_IMAGE = Error (str ''No image data found in response'')"

definition extract_image :: "response \<Rightarrow> error + jsstring" where
  "extract_image r =
     (case candidates r of
        None \<Rightarrow> Inl NO_IMAGE
      | Some [] \<Rightarrow> Inl TypeError
      | Some (c # _) \<Rightarrow>
          (case content c of
             None \<Rightarrow> Inl NO_IMAGE
           | Some ct \<Rightarrow>
               (case parts ct of
                  None \<Rightarrow> Inl NO_IMAGE
                | Some ps \<Rightarrow>
                    (case first_inline ps of
                       Some img \<Rightarrow> Inr img
                     | None \<Rightarrow> Inl NO_IMAGE))))"

text \<open>
  What one call does: the requests it sends to the service, the errors it writes with
  \<open>console.error\<close>, and how its promise settles.
\<close>

record 'a run =
  sent :: "part list list"
  logged :: "error list"
  outcome :: "error + 'a"

text \<open>
  The whole body is inside \<open>try\<close>: whatever is thrown (by parseBase64, by the service,
  by reading the response) is logged by the \<open>catch\<close> block and thrown again.
\<close>

definition generateTestImage :: "service \<Rightarrow> jsstring \<Rightarrow> jsstring option \<Rightarrow> jsstring run" where
  "generateTestImage svc prompt referenceImage =
     (case build_parts prompt referenceImage of
        Inl e \<Rightarrow> \<lparr>sent = [], logged = [e], outcome = Inl e\<rparr>
      | Inr ps \<Rightarrow>
          (case svc ps of
             Inl e \<Rightarrow> \<lparr>sent = [ps], logged = [e], outcome = Inl e\<rparr>
           | Inr r \<Rightarrow>
               (case extract_image r of
                  Inl e \<Rightarrow> \<lparr>sent = [ps], logged = [e], outcome = Inl e\<rparr>
                | Inr img \<Rightarrow> \<lparr>sent = [ps], logged = [], outcome = Inr img\<rparr>)))"

subsection \<open>generateComparisonPair\<close>

text \<open>
  \<open>Promise.all\<close> of two promises fulfils with both values when both fulfil and rejects
  with the reason of the promise that rejects first. Which of two failing requests
  rejects first is decided by the network, so it is a parameter.
\<close>

datatype settle_order = A_first | B_first

definition promise_all :: "settle_order \<Rightarrow> error + 'a \<Rightarrow> error + 'a \<Rightarrow> error + ('a \<times> 'a)" where
  "promise_all ord rA rB =
     (case rA of
        Inr a \<Rightarrow> (case rB of Inr b \<Rightarrow> Inr (a, b) | Inl eB \<Rightarrow> Inl eB)
      | Inl eA \<Rightarrow>
          (case rB of
             Inr b \<Rightarrow> Inl eA
           | Inl eB \<Rightarrow> (case ord of A_first \<Rightarrow> Inl eA | B_first \<Rightarrow> Inl eB)))"

record image_pair =
  imageA :: jsstring
  imageB :: jsstring

text \<open>A call of the client: the prompt and the optional reference image it is given.\<close>

type_synonym gen_call = "jsstring \<times> jsstring option"

record 'a pair_run = "'a run" +
  calls :: "gen_call list"

text \<open>
  Both calls are made before \<open>Promise.all\<close> is entered, A before B, so both always
  happen and the requests go out in this order; the log entries of the two calls
  come in the order in which they settle.
\<close>

definition generateComparisonPair ::
  "service \<Rightarrow> settle_order \<Rightarrow> jsstring \<Rightarrow> jsstring option \<Rightarrow> image_pair pair_run" where
  "generateComparisonPair svc ord prompt referenceImage =
     (let cA = (prompt @ str '' --v 1'', referenceImage);
          cB = (prompt @ str '' --v 2'', referenceImage);
          resA = generateTestImage svc (fst cA) (snd cA);
          resB = generateTestImage svc (fst cB) (snd cB)
      in \<lparr>sent = sent resA @ sent resB,
          logged = (case ord of A_first \<Rightarrow> logged resA @ logged resB
                               | B_first \<Rightarrow> logged resB @ logged resA),
          outcome = (case promise_all ord (outcome resA) (outcome resB) of
                       Inl e \<Rightarrow> Inl e
                     | Inr (a, b) \<Rightarrow> Inr \<lparr>imageA = a, imageB = b\<rparr>),
          calls = [cA, cB]\<rparr>)"

section \<open>The session state machine (App)\<close>

subsection \<open>Types\<close>

datatype UserRole = GENERAL_USER | DESIGNER | CREATOR | AI_EXPERT

datatype TestPhase = ONBOARDING | USER_INPUT | GENERATION_EVAL | AB_TEST | COMPLETED

text \<open>A score is a JavaScript number; the slider delivers 1, 1.5, ..., 5.\<close>

record EvaluationMetric =
  metric_id :: jsstring
  label :: jsstring
  score :: rat
  description :: jsstring

text \<open>
  Metric objects are shared and mutated in place: \<open>[...metrics]\<close> copies the array, not
  the objects in it, and the slider assigns to \<open>newMetrics[idx].score\<close>. So an array of
  metrics is a list of references into a heap of metric objects; a new object (from an
  object literal or a spread) is appended to the heap.
\<close>

type_synonym addr = nat

record SingleEvalResult =
  se_prompt :: jsstring
  se_image :: jsstring
  se_metrics :: "addr list"
  feedback :: jsstring
  se_timestamp :: int

datatype choice = Pick_A | Pick_B | Pick_Equal

record ABTestResult =
  ab_prompt :: jsstring
  sourceImage :: "jsstring option"
  ab_imageA :: jsstring
  ab_imageB :: jsstring
  selectedImage :: choice
  reasoning :: jsstring
  ab_timestamp :: int

record UserSession =
  role :: UserRole
  experienceLevel :: int
  singleEvals :: "SingleEvalResult list"
  abTests :: "ABTestResult list"

record comparison =
  imgA :: jsstring
  imgB :: jsstring

text \<open>The state variables of the component, and the heap of metric objects.\<close>

record app =
  phase :: TestPhase
  session :: UserSession
  prompt :: jsstring
  uploadedImage :: "jsstring option"
  loading :: bool
  generatedImage :: "jsstring option"
  comparisonImages :: "comparison option"
  metrics :: "addr list"
  textFeedback :: jsstring
  error :: "jsstring option"
  heap :: "EvaluationMetric list"

subsection \<open>Constants\<close>

text \<open>The four object literals of \<open>INITIAL_METRICS\<close>, with their labels and descriptions.\<close>

definition INITIAL_METRICS_LITERAL :: "EvaluationMetric list" where
  "INITIAL_METRICS_LITERAL =
     [\<lparr>metric_id = str ''adherence'',
       label = [0x63D0, 0x793A, 0x8BCD, 0x9075, 0x5FAA, 0x5EA6],
       score = 3,
       description = [0x56FE, 0x50CF, 0x662F, 0x5426, 0x51C6, 0x786E, 0x53CD, 0x6620, 0x4E86,
         0x63D0, 0x793A, 0x8BCD, 0x7684, 0x5185, 0x5BB9, 0xFF1F]\<rparr>,
      \<lparr>metric_id = str ''quality'',
       label = [0x89C6, 0x89C9, 0x4FDD, 0x771F, 0x5EA6],
       score = 3,
       description = [0x6E05, 0x6670, 0x5EA6, 0x3001, 0x9510, 0x5EA6, 0x4EE5, 0x53CA, 0x566A,
         0x70B9, 0x63A7, 0x5236, 0x3002]\<rparr>,
      \<lparr>metric_id = str ''aesthetics'',
       label = [0x7F8E, 0x5B66, 0x8D28, 0x91CF],
       score = 3,
       description = [0x6784, 0x56FE, 0x3001, 0x5149, 0x5F71, 0x53CA, 0x827A, 0x672F, 0x8868,
         0x73B0, 0x529B, 0x3002]\<rparr>,
      \<lparr>metric_id = str ''coherence'',
       label = [0x7ED3, 0x6784, 0x8FDE, 0x8D2F, 0x6027],
       score = 3,
       description = [0x89E3, 0x5256, 0x7ED3, 0x6784, 0x3001, 0x900F, 0x89C6, 0x53CA, 0x7269,
         0x4F53, 0x903B, 0x8F91, 0x662F, 0x5426, 0x5408, 0x7406, 0x3002]\<rparr>]"

text \<open>The array \<open>INITIAL_METRICS\<close>: its objects are the first four of the heap.\<close>

definition INITIAL_METRICS :: "addr list" where
  "INITIAL_METRICS = [0, 1, 2, 3]"

definition SUGGESTED_PROMPTS :: "jsstring list" where
  "SUGGESTED_PROMPTS =
     [[0x706B, 0x661F, 0x4E0A, 0x5DE8, 0x5927, 0x7684, 0x73BB, 0x7483, 0x6CE1, 0x5185,
       0x5EFA, 0x9020, 0x7684, 0x672A, 0x6765, 0x57CE, 0x5E02, 0xFF0C, 0x7535, 0x5F71,
       0x7EA7, 0x5E03, 0x5149],
      [0x4E00, 0x53EA, 0x7A7F, 0x7740, 0x6587, 0x827A, 0x590D, 0x5174, 0x65F6, 0x671F,
       0x7687, 0x5BB6, 0x670D, 0x9970, 0x7684, 0x732B, 0x7684, 0x6CB9, 0x753B, 0xFF0C,
       0x534E, 0x4E3D, 0x7684, 0x91D1, 0x6846],
      [0x73AF, 0x4FDD, 0x5496, 0x5561, 0x5E97, 0x7684, 0x6781, 0x7B80, 0x4E3B, 0x4E49,
       0x0020, 0x004C, 0x006F, 0x0067, 0x006F, 0x0020, 0x8BBE, 0x8BA1, 0xFF0C, 0x77E2,
       0x91CF, 0x98CE, 0x683C, 0xFF0C, 0x6241, 0x5E73, 0x5316, 0x8272, 0x5F69],
      [0x4E1C, 0x4EAC, 0x7684, 0x8D5B, 0x535A, 0x670B, 0x514B, 0x8857, 0x5934, 0x5C0F,
       0x5403, 0x644A, 0x8D29, 0xFF0C, 0x9713, 0x8679, 0x96E8, 0xFF0C, 0x7EC6, 0x8282,
       0x7EB9, 0x7406, 0xFF0C, 0x0038, 0x006B]]"

text \<open>The three messages given to \<open>setError\<close>, in the order of the source.\<close>

definition GENERATE_FAILED :: jsstring where
  "GENERATE_FAILED =
     [0x751F, 0x6210, 0x56FE, 0x50CF, 0x5931, 0x8D25, 0xFF0C, 0x8BF7, 0x91CD, 0x8BD5, 0x3002]"

definition PROCESS_FAILED :: jsstring where
  "PROCESS_FAILED =
     [0x56FE, 0x50CF, 0x5904, 0x7406, 0x5931, 0x8D25, 0xFF0C, 0x8BF7, 0x91CD, 0x8BD5, 0x3002]"

definition COMPARE_FAILED :: jsstring where
  "COMPARE_FAILED = [0x751F, 0x6210, 0x5BF9, 0x6BD4, 0x56FE, 0x50CF, 0x5931, 0x8D25, 0x3002]"

text \<open>The state of lines 32 to 48, the module's metric objects on the heap.\<close>

definition initial_app :: app where
  "initial_app =
     \<lparr>phase = ONBOARDING,
      session = \<lparr>role = GENERAL_USER, experienceLevel = 5, singleEvals = [], abTests = []\<rparr>,
      prompt = [],
      uploadedImage = None,
      loading = False,
      generatedImage = None,
      comparisonImages = None,
      metrics = INITIAL_METRICS,
      textFeedback = [],
      error = None,
      heap = INITIAL_METRICS_LITERAL\<rparr>"

subsection \<open>State setters\<close>

definition setPhase :: "TestPhase \<Rightarrow> app \<Rightarrow> app" where
  "setPhase p st = st\<lparr>phase := p\<rparr>"

text \<open>\<open>setSession\<close> is always given an updater function of the previous session.\<close>

definition setSession :: "(UserSession \<Rightarrow> UserSession) \<Rightarrow> app \<Rightarrow> app" where
  "setSession f st = st\<lparr>session := f (session st)\<rparr>"

definition setPrompt :: "jsstring \<Rightarrow> app \<Rightarrow> app" where
  "setPrompt p st = st\<lparr>prompt := p\<rparr>"

definition setUploadedImage :: "jsstring option \<Rightarrow> app \<Rightarrow> app" where
  "setUploadedImage v st = st\<lparr>uploadedImage := v\<rparr>"

definition setLoading :: "bool \<Rightarrow> app \<Rightarrow> app" where
  "setLoading b st = st\<lparr>loading := b\<rparr>"

definition setGeneratedImage :: "jsstring option \<Rightarrow> app \<Rightarrow> app" where
  "setGeneratedImage v st = st\<lparr>generatedImage := v\<rparr>"

definition setComparisonImages :: "comparison option \<Rightarrow> app \<Rightarrow> app" where
  "setComparisonImages v st = st\<lparr>comparisonImages := v\<rparr>"

definition setMetrics :: "addr list \<Rightarrow> app \<Rightarrow> app" where
  "setMetrics ms st = st\<lparr>metrics := ms\<rparr>"

definition setTextFeedback :: "jsstring \<Rightarrow> app \<Rightarrow> app" where
  "setTextFeedback t st = st\<lparr>textFeedback := t\<rparr>"

definition setError :: "jsstring option \<Rightarrow> app \<Rightarrow> app" where
  "setError v st = st\<lparr>error := v\<rparr>"

subsection \<open>Handlers\<close>

definition handleStart :: "UserRole \<Rightarrow> app \<Rightarrow> app" where
  "handleStart r st =
     (let st1 = setSession (\<lambda>prev. prev\<lparr>role := r\<rparr>) st
      in if r = GENERAL_USER then setPhase USER_INPUT st1 else setPhase GENERATION_EVAL st1)"

text \<open>
  An asynchronous handler is two functions: the part that runs until the \<open>await\<close>,
  which returns the state it leaves and the call it waits for (none when the guard
  returns first), and the part that runs once the call has settled. The second part only
  sets state variables, so it applies to whatever the state is by then.
\<close>

definition handleGenerateSingle :: "app \<Rightarrow> app \<times> gen_call option" where
  "handleGenerateSingle st =
     (if trim (prompt st) = [] then (st, None)
      else (setGeneratedImage None (setError None (setLoading True st)),
            Some (prompt st, None)))"

definition handleGenerateSingle_settled :: "error + jsstring \<Rightarrow> app \<Rightarrow> app" where
  "handleGenerateSingle_settled r st =
     setLoading False
       (case r of
          Inr img \<Rightarrow> setGeneratedImage (Some img) st
        | Inl e \<Rightarrow> setError (Some GENERATE_FAILED) st)"

text \<open>The slider's \<open>onChange\<close> of lines 341 to 345, for the metric at index \<open>idx\<close>.\<close>

definition onChangeMetric :: "nat \<Rightarrow> rat \<Rightarrow> app \<Rightarrow> error + app" where
  "onChangeMetric idx val st =
     (let newMetrics = metrics st
      in if idx < length newMetrics
         then Inr (setMetrics newMetrics
                (st\<lparr>heap := (heap st)[newMetrics ! idx :=
                               (heap st ! (newMetrics ! idx))\<lparr>score := val\<rparr>]\<rparr>))
         else Inl TypeError)"

text \<open>\<open>INITIAL_METRICS.map(m => ({...m, score: 3}))\<close>: four new objects.\<close>

definition fresh_metrics :: "app \<Rightarrow> addr list \<times> app" where
  "fresh_metrics st =
     (let objs = map (\<lambda>a. (heap st ! a)\<lparr>score := 3\<rparr>) INITIAL_METRICS
      in ([length (heap st) ..< length (heap st) + length objs],
          st\<lparr>heap := heap st @ objs\<rparr>))"

definition handleSubmitSingleEval :: "int \<Rightarrow> app \<Rightarrow> app" where
  "handleSubmitSingleEval now st =
     (case generatedImage st of
        None \<Rightarrow> st
      | Some img \<Rightarrow>
          if img = [] then st
          else
            (let result = \<lparr>se_prompt = prompt st, se_image = img, se_metrics = metrics st,
                           feedback = textFeedback st, se_timestamp = now\<rparr>;
                 st1 = setSession (\<lambda>prev. prev\<lparr>singleEvals := singleEvals prev @ [result]\<rparr>) st;
                 st2 = setGeneratedImage None st1;
                 st3 = setPrompt [] st2;
                 (ms, st4) = fresh_metrics st3;
                 st5 = setMetrics ms st4;
                 st6 = setTextFeedback [] st5
             in setPhase AB_TEST st6))"

definition handleGeneralUserSubmit :: "app \<Rightarrow> app \<times> gen_call option" where
  "handleGeneralUserSubmit st =
     (if \<not> truthy (uploadedImage st) \<or> trim (prompt st) = [] then (st, None)
      else (setPhase AB_TEST (setLoading True st), Some (prompt st, uploadedImage st)))"

definition handleGeneralUserSubmit_settled :: "error + image_pair \<Rightarrow> app \<Rightarrow> app" where
  "handleGeneralUserSubmit_settled r st =
     setLoading False
       (case r of
          Inr pr \<Rightarrow> setComparisonImages (Some \<lparr>imgA = imageA pr, imgB = imageB pr\<rparr>) st
        | Inl e \<Rightarrow> setPhase USER_INPUT (setError (Some PROCESS_FAILED) st))"

text \<open>\<open>rnd\<close> is the value of \<open>Math.random()\<close>, at least 0 and less than 1.\<close>

definition testPrompt :: "rat \<Rightarrow> app \<Rightarrow> jsstring" where
  "testPrompt rnd st =
     (if trim (prompt st) \<noteq> [] then trim (prompt st)
      else SUGGESTED_PROMPTS ! nat \<lfloor>rnd * of_nat (length SUGGESTED_PROMPTS)\<rfloor>)"

definition handleStartProfessionalABTest :: "rat \<Rightarrow> app \<Rightarrow> app \<times> gen_call" where
  "handleStartProfessionalABTest rnd st =
     (setError None (setLoading True (setPrompt (testPrompt rnd st) st)),
      (testPrompt rnd st, None))"

definition handleStartProfessionalABTest_settled :: "error + image_pair \<Rightarrow> app \<Rightarrow> app" where
  "handleStartProfessionalABTest_settled r st =
     setLoading False
       (case r of
          Inr pr \<Rightarrow> setComparisonImages (Some \<lparr>imgA = imageA pr, imgB = imageB pr\<rparr>) st
        | Inl e \<Rightarrow> setError (Some COMPARE_FAILED) st)"

text \<open>\<open>uploadedImage || undefined\<close>: an empty string is left out as well.\<close>

definition or_undefined :: "jsstring option \<Rightarrow> jsstring option" where
  "or_undefined v = (if truthy v then v else None)"

definition handleABSelection :: "choice \<Rightarrow> int \<Rightarrow> app \<Rightarrow> app" where
  "handleABSelection selection now st =
     (case comparisonImages st of
        None \<Rightarrow> st
      | Some c \<Rightarrow>
          (let result = \<lparr>ab_prompt = prompt st, sourceImage = or_undefined (uploadedImage st),
                         ab_imageA = imgA c, ab_imageB = imgB c, selectedImage = selection,
                         reasoning = textFeedback st, ab_timestamp = now\<rparr>;
               st1 = setSession (\<lambda>prev. prev\<lparr>abTests := abTests prev @ [result]\<rparr>) st
           in setPhase COMPLETED st1))"

text \<open>
  The asynchronous handlers from the click to the end, for a given service, when nothing
  else happens while the call is on its way.
\<close>

definition handleGenerateSingle_run :: "service \<Rightarrow> app \<Rightarrow> app" where
  "handleGenerateSingle_run svc st =
     (case handleGenerateSingle st of
        (st1, None) \<Rightarrow> st1
      | (st1, Some c) \<Rightarrow>
          handleGenerateSingle_settled (outcome (generateTestImage svc (fst c) (snd c))) st1)"

definition handleGeneralUserSubmit_run :: "service \<Rightarrow> settle_order \<Rightarrow> app \<Rightarrow> app" where
  "handleGeneralUserSubmit_run svc ord st =
     (case handleGeneralUserSubmit st of
        (st1, None) \<Rightarrow> st1
      | (st1, Some c) \<Rightarrow>
          handleGeneralUserSubmit_settled
            (outcome (generateComparisonPair svc ord (fst c) (snd c))) st1)"

definition handleStartProfessionalABTest_run ::
  "service \<Rightarrow> settle_order \<Rightarrow> rat \<Rightarrow> app \<Rightarrow> app" where
  "handleStartProfessionalABTest_run svc ord rnd st =
     (case handleStartProfessionalABTest rnd st of
        (st1, c) \<Rightarrow>
          handleStartProfessionalABTest_settled
            (outcome (generateComparisonPair svc ord (fst c) (snd c))) st1)"

subsection \<open>What the page offers\<close>

text \<open>
  Modelled from the spec: the \<open>Button\<close> component (components/Button) is not among the
  sources. The spec calls an action whose button has \<open>disabled\<close> set a disabled action:
  a disabled button does not run its \<open>onClick\<close>, any other button does.
\<close>

definition button_clickable :: "bool \<Rightarrow> bool" where
  "button_clickable disabled \<longleftrightarrow> \<not> disabled"

text \<open>The two panels of \<open>renderABTest\<close> (lines 390 and 410) that carry controls.\<close>

definition start_panel_shown :: "app \<Rightarrow> bool" where
  "start_panel_shown st \<longleftrightarrow>
     comparisonImages st = None \<and> \<not> loading st \<and> role (session st) \<noteq> GENERAL_USER"

definition selection_panel_shown :: "app \<Rightarrow> bool" where
  "selection_panel_shown st \<longleftrightarrow> comparisonImages st \<noteq> None \<and> \<not> loading st"

text \<open>
  The error message on the page. \<open>renderUserInput\<close> (lines 277 to 282) and
  \<open>renderGenerationEval\<close> (line 328) render \<open>error\<close> when it is truthy;
  \<open>renderOnboarding\<close>, \<open>renderABTest\<close> and \<open>renderCompleted\<close> never read it.
\<close>

definition error_banner :: "app \<Rightarrow> jsstring option" where
  "error_banner st =
     (if (phase st = USER_INPUT \<or> phase st = GENERATION_EVAL) \<and> truthy (error st)
      then error st else None)"

text \<open>The metric objects the sliders show, and those a record's \<open>metrics\<close> field holds.\<close>

definition shown_metrics :: "app \<Rightarrow> EvaluationMetric list" where
  "shown_metrics st = map (\<lambda>a. heap st ! a) (metrics st)"

definition recorded_metrics :: "app \<Rightarrow> SingleEvalResult \<Rightarrow> EvaluationMetric list" where
  "recorded_metrics st r = map (\<lambda>a. heap st ! a) (se_metrics r)"

text \<open>
  The metric state as the component keeps it: four references to objects on the heap,
  and the four objects of the module still as they were written but for \<open>score\<close>,
  the one field that is ever assigned.
\<close>

definition wf_app :: "app \<Rightarrow> bool" where
  "wf_app st \<longleftrightarrow>
     length (metrics st) = 4 \<and>
     list_all (\<lambda>a. a < length (heap st)) (metrics st) \<and>
     4 \<le> length (heap st) \<and>
     map (\<lambda>a. (heap st ! a)\<lparr>score := 3\<rparr>) INITIAL_METRICS = INITIAL_METRICS_LITERAL"

subsection \<open>The page as a transition system\<close>

text \<open>Operations that have been started and have not called back yet.\<close>

datatype pending = FileRead | SingleGeneration | GeneralPair | ProfessionalPair

record sys =
  ui :: app
  pending :: "pending multiset"

definition initial_sys :: sys where
  "initial_sys = \<lparr>ui = initial_app, pending = {#}\<rparr>"

text \<open>
  What can happen: the user's actions on the controls of the current page, with the
  values that come from outside (the text typed, the clock, the random number), and the
  callbacks of the operations on their way, with any result.
\<close>

datatype event =
    ClickRole UserRole
  | ChooseFile
  | FileLoaded "jsstring option"
  | ChangePrompt jsstring
  | ClickGeneralSubmit
  | SettleGeneralSubmit "error + image_pair"
  | ClickGenerate
  | SettleGenerate "error + jsstring"
  | ChangeMetric nat rat
  | ClickSubmitSingleEval int
  | ClickStartAB rat
  | SettleStartAB "error + image_pair"
  | ChangeFeedback jsstring
  | Select choice int

text \<open>
  A control can be used when the page of the current phase renders it and it is not
  disabled. The generate button is taken as usable also while \<open>loading\<close>: what its
  \<open>isLoading\<close> does is not in the sources, and more behaviour is the safe side here.
\<close>

fun enabled :: "event \<Rightarrow> sys \<Rightarrow> bool" where
  "enabled (ClickRole r) s \<longleftrightarrow> phase (ui s) = ONBOARDING"
| "enabled ChooseFile s \<longleftrightarrow> phase (ui s) = USER_INPUT"
| "enabled (FileLoaded v) s \<longleftrightarrow> FileRead \<in># pending s"
| "enabled (ChangePrompt p) s \<longleftrightarrow>
     phase (ui s) = USER_INPUT \<or> phase (ui s) = GENERATION_EVAL \<or>
     (phase (ui s) = AB_TEST \<and> start_panel_shown (ui s))"
| "enabled ClickGeneralSubmit s \<longleftrightarrow>
     phase (ui s) = USER_INPUT \<and>
     button_clickable (\<not> truthy (uploadedImage (ui s)) \<or> trim (prompt (ui s)) = [])"
| "enabled (SettleGeneralSubmit r) s \<longleftrightarrow> GeneralPair \<in># pending s"
| "enabled ClickGenerate s \<longleftrightarrow>
     phase (ui s) = GENERATION_EVAL \<and> button_clickable (prompt (ui s) = [])"
| "enabled (SettleGenerate r) s \<longleftrightarrow> SingleGeneration \<in># pending s"
| "enabled (ChangeMetric idx val) s \<longleftrightarrow>
     phase (ui s) = GENERATION_EVAL \<and> truthy (generatedImage (ui s)) \<and>
     idx < length (metrics (ui s))"
| "enabled (ClickSubmitSingleEval now) s \<longleftrightarrow>
     phase (ui s) = GENERATION_EVAL \<and> truthy (generatedImage (ui s))"
| "enabled (ClickStartAB rnd) s \<longleftrightarrow>
     phase (ui s) = AB_TEST \<and> start_panel_shown (ui s) \<and> 0 \<le> rnd \<and> rnd < 1"
| "enabled (SettleStartAB r) s \<longleftrightarrow> ProfessionalPair \<in># pending s"
| "enabled (ChangeFeedback t) s \<longleftrightarrow>
     phase (ui s) = AB_TEST \<and> selection_panel_shown (ui s)"
| "enabled (Select c now) s \<longleftrightarrow>
     phase (ui s) = AB_TEST \<and> selection_panel_shown (ui s) \<and>
     (c = Pick_Equal \<longrightarrow> button_clickable (trim (textFeedback (ui s)) = []))"

fun fire :: "event \<Rightarrow> sys \<Rightarrow> sys" where
  "fire (ClickRole r) s = s\<lparr>ui := handleStart r (ui s)\<rparr>"
| "fire ChooseFile s = s\<lparr>pending := add_mset FileRead (pending s)\<rparr>"
| "fire (FileLoaded v) s =
     \<lparr>ui = setUploadedImage v (ui s), pending = pending s - {#FileRead#}\<rparr>"
| "fire (ChangePrompt p) s = s\<lparr>ui := setPrompt p (ui s)\<rparr>"
| "fire ClickGeneralSubmit s =
     (case handleGeneralUserSubmit (ui s) of
        (st, None) \<Rightarrow> s\<lparr>ui := st\<rparr>
      | (st, Some c) \<Rightarrow> \<lparr>ui = st, pending = add_mset GeneralPair (pending s)\<rparr>)"
| "fire (SettleGeneralSubmit r) s =
     \<lparr>ui = handleGeneralUserSubmit_settled r (ui s),
      pending = pending s - {#GeneralPair#}\<rparr>"
| "fire ClickGenerate s =
     (case handleGenerateSingle (ui s) of
        (st, None) \<Rightarrow> s\<lparr>ui := st\<rparr>
      | (st, Some c) \<Rightarrow> \<lparr>ui = st, pending = add_mset SingleGeneration (pending s)\<rparr>)"
| "fire (SettleGenerate r) s =
     \<lparr>ui = handleGenerateSingle_settled r (ui s),
      pending = pending s - {#SingleGeneration#}\<rparr>"
| "fire (ChangeMetric idx val) s =
     (case onChangeMetric idx val (ui s) of
        Inl e \<Rightarrow> s
      | Inr st \<Rightarrow> s\<lparr>ui := st\<rparr>)"
| "fire (ClickSubmitSingleEval now) s = s\<lparr>ui := handleSubmitSingleEval now (ui s)\<rparr>"
| "fire (ClickStartAB rnd) s =
     (case handleStartProfessionalABTest rnd (ui s) of
        (st, c) \<Rightarrow> \<lparr>ui = st, pending = add_mset ProfessionalPair (pending s)\<rparr>)"
| "fire (SettleStartAB r) s =
     \<lparr>ui = handleStartProfessionalABTest_settled r (ui s),
      pending = pending s - {#ProfessionalPair#}\<rparr>"
| "fire (ChangeFeedback t) s = s\<lparr>ui := setTextFeedback t (ui s)\<rparr>"
| "fire (Select c now) s = s\<lparr>ui := handleABSelection c now (ui s)\<rparr>"

definition step :: "event \<Rightarrow> sys \<Rightarrow> sys option" where
  "step e s = (if enabled e s then Some (fire e s) else None)"

text \<open>The states of one session: from the first render, by any events, without reload.\<close>

inductive reachable :: "sys \<Rightarrow> bool" where
  reachable_init: "reachable initial_sys"
| reachable_step: "reachable s \<Longrightarrow> step e s = Some s' \<Longrightarrow> reachable s'"

text \<open>
  The order of the phases. The upload flow is the one place where the phase goes back:
  it enters AB_TEST when the generation starts and returns to USER_INPUT when it fails.
\<close>

fun phase_rank :: "TestPhase \<Rightarrow> nat" where
  "phase_rank ONBOARDING = 0"
| "phase_rank USER_INPUT = 1"
| "phase_rank GENERATION_EVAL = 1"
| "phase_rank AB_TEST = 2"
| "phase_rank COMPLETED = 3"

text \<open>The records an event appends to singleEvals and to abTests when it is handled.\<close>

fun appended :: "event \<Rightarrow> nat \<times> nat" where
  "appended (ClickSubmitSingleEval now) = (1, 0)"
| "appended (Select c now) = (0, 1)"
| "appended e = (0, 0)"

text \<open>What holds in every state of a session (shown below by induction on the events).\<close>

definition session_inv :: "sys \<Rightarrow> bool" where
  "session_inv s \<longleftrightarrow>
     wf_app (ui s) \<and>
     (phase (ui s) = ONBOARDING \<longrightarrow> pending s = {#}) \<and>
     (phase_rank (phase (ui s)) \<le> 1 \<longrightarrow>
        singleEvals (session (ui s)) = [] \<and> abTests (session (ui s)) = [] \<and>
        comparisonImages (ui s) = None) \<and>
     (phase (ui s) = AB_TEST \<longrightarrow> abTests (session (ui s)) = []) \<and>
     length (singleEvals (session (ui s))) \<le> 1 \<and>
     length (abTests (session (ui s))) \<le> 1 \<and>
     (GeneralPair \<in># pending s \<longrightarrow>
        phase (ui s) = AB_TEST \<and> comparisonImages (ui s) = None \<and>
        role (session (ui s)) = GENERAL_USER \<and> count (pending s) GeneralPair = 1) \<and>
     (phase (ui s) = USER_INPUT \<longrightarrow> role (session (ui s)) = GENERAL_USER) \<and>
     (phase (ui s) = GENERATION_EVAL \<longrightarrow>
        role (session (ui s)) \<noteq> GENERAL_USER \<and> ProfessionalPair \<notin># pending s) \<and>
     (ProfessionalPair \<in># pending s \<longrightarrow> role (session (ui s)) \<noteq> GENERAL_USER) \<and>
     (role (session (ui s)) = GENERAL_USER \<longrightarrow> singleEvals (session (ui s)) = []) \<and>
     (comparisonImages (ui s) \<noteq> None \<longrightarrow> \<not> loading (ui s))"

subsection \<open>Services and states for examples\<close>

definition image_service :: service where
  "image_service ps =
     Inr \<lparr>candidates = Some [\<lparr>content = Some \<lparr>parts = Some
       [text_part (str ''ok''),
        inline_part \<lparr>mimeType = str ''image/png'', data = str ''QUJD''\<rparr>]\<rparr>\<rparr>]\<rparr>"

definition failing_service :: service where
  "failing_service ps = Inl (ServiceError (str ''503''))"

text \<open>A service that answers with an empty list of candidates.\<close>

definition empty_service :: service where
  "empty_service ps = Inr \<lparr>candidates = Some []\<rparr>"

text \<open>A service that fails on the request whose prompt ends in \<open>2\<close>.\<close>

definition flaky_service :: service where
  "flaky_service ps =
     (case part_text (last ps) of
        None \<Rightarrow> failing_service ps
      | Some p \<Rightarrow> if last p = 0x32 then failing_service ps else image_service ps)"

definition example_image :: jsstring where
  "example_image = str ''data:image/png;base64,QUJD''"

text \<open>
  A designer has typed a prompt, generated an image and moved the second slider to 4.5.
\<close>

definition rated_state :: sys where
  "rated_state =
     fire (ChangeMetric 1 (9 / 2))
       (fire (SettleGenerate (Inr example_image))
         (fire ClickGenerate
           (fire (ChangePrompt (str ''a red bicycle''))
             (fire (ClickRole DESIGNER) initial_sys))))"

text \<open>A general user has uploaded an image and typed an intent.\<close>

definition upload_state :: sys where
  "upload_state =
     fire (ChangePrompt (str ''make it look like winter''))
       (fire (FileLoaded (Some example_image))
         (fire ChooseFile
           (fire (ClickRole GENERAL_USER) initial_sys)))"

text \<open>The same user, once the pair has arrived; no feedback typed yet.\<close>

definition compare_state :: sys where
  "compare_state =
     fire (SettleGeneralSubmit (Inr \<lparr>imageA = example_image, imageB = example_image\<rparr>))
       (fire ClickGeneralSubmit upload_state)"

text \<open>The designer after the submission of the rating, on the start panel of the A/B test.\<close>

definition professional_ab_state :: sys where
  "professional_ab_state = fire (ClickSubmitSingleEval 1700000000000) rated_state"

text \<open>The general user on the comparison page with a reason typed.\<close>

definition reasoned_state :: sys where
  "reasoned_state = fire (ChangeFeedback (str ''B is sharper'')) compare_state"

text \<open>The general user on the comparison page with a space, a tab and a line feed typed.\<close>

definition blank_state :: sys where
  "blank_state = fire (ChangeFeedback [0x20, 0x09, 0x0A]) compare_state"

section \<open>Properties of the client\<close>

lemma strip_prefix_append: "strip_prefix xs (xs @ ys) = Some ys"
  by (induction xs) auto

lemma strip_prefix_Some: "strip_prefix xs zs = Some ys \<Longrightarrow> zs = xs @ ys"
  by (induction xs zs rule: strip_prefix.induct) (auto split: if_splits)

lemma semicolon_not_mime_char: "\<not> mime_char 0x3B"
  by (simp add: mime_char_def)

lemma takeWhile_mime:
  "list_all mime_char m \<Longrightarrow> takeWhile mime_char (m @ str '';base64,'' @ d) = m"
  by (induction m) (auto simp: str_def semicolon_not_mime_char)

lemma dropWhile_mime:
  "list_all mime_char m \<Longrightarrow>
   dropWhile mime_char (m @ str '';base64,'' @ d) = str '';base64,'' @ d"
  by (induction m) (auto simp: str_def semicolon_not_mime_char)

text \<open>
  The matcher against the regular expression read as a statement: a string matches with
  groups \<open>m\<close> and \<open>d\<close> exactly when it is \<open>data:\<close>, a non-empty \<open>m\<close> of class
  characters, \<open>;base64,\<close> and a non-empty \<open>d\<close> without line terminator.
\<close>

lemma data_url_match_iff:
  "data_url_match s = Some (m, d) \<longleftrightarrow>
     s = str ''data:'' @ m @ str '';base64,'' @ d \<and>
     m \<noteq> [] \<and> list_all mime_char m \<and> d \<noteq> [] \<and> \<not> list_ex line_terminator d"
proof
  assume "data_url_match s = Some (m, d)"
  then obtain rest where r: "strip_prefix (str ''data:'') s = Some rest"
    and d: "strip_prefix (str '';base64,'') (dropWhile mime_char rest) = Some d"
    and m: "m = takeWhile mime_char rest"
    and ok: "m \<noteq> []" "d \<noteq> []" "\<not> list_ex line_terminator d"
    by (auto simp: data_url_match_def split: option.splits if_splits)
  have "rest = takeWhile mime_char rest @ dropWhile mime_char rest"
    by simp
  also have "\<dots> = m @ str '';base64,'' @ d"
    using strip_prefix_Some [OF d] m by simp
  finally have "s = str ''data:'' @ m @ str '';base64,'' @ d"
    using strip_prefix_Some [OF r] by simp
  moreover have "list_all mime_char m"
    unfolding m list_all_iff by (auto dest: set_takeWhileD)
  ultimately show "s = str ''data:'' @ m @ str '';base64,'' @ d \<and>
     m \<noteq> [] \<and> list_all mime_char m \<and> d \<noteq> [] \<and> \<not> list_ex line_terminator d"
    using ok by simp
next
  assume a: "s = str ''data:'' @ m @ str '';base64,'' @ d \<and>
     m \<noteq> [] \<and> list_all mime_char m \<and> d \<noteq> [] \<and> \<not> list_ex line_terminator d"
  then have "strip_prefix (str ''data:'') s = Some (m @ str '';base64,'' @ d)"
    by (simp add: strip_prefix_append)
  moreover have "strip_prefix (str '';base64,'') (str '';base64,'' @ d) = Some d"
    by (rule strip_prefix_append)
  ultimately show "data_url_match s = Some (m, d)"
    using a by (simp add: data_url_match_def takeWhile_mime dropWhile_mime)
qed

subsection \<open>The encoded-image convention\<close>

text \<open>
  Claim C3, as amended. Encoding a media type and a payload the way generateTestImage
  writes its result and decoding with parseBase64 gives both back, when the media type
  is non-empty and made of the characters of the class, and the payload is non-empty
  and has no line terminator (LF, CR, U+2028, U+2029).
\<close>

theorem parseBase64_encodeImage:
  "m \<noteq> [] \<Longrightarrow> list_all mime_char m \<Longrightarrow> d \<noteq> [] \<Longrightarrow> \<not> list_ex line_terminator d \<Longrightarrow>
   parseBase64 (encodeImage m d) = Inr \<lparr>mimeType = m, data = d\<rparr>"
proof -
  assume "m \<noteq> []" "list_all mime_char m" "d \<noteq> []" "\<not> list_ex line_terminator d"
  then have "data_url_match (encodeImage m d) = Some (m, d)"
    unfolding data_url_match_iff encodeImage_def by simp
  then show ?thesis
    by (simp add: parseBase64_def)
qed

theorem parseBase64_encodeImage_witness:
  "parseBase64 (encodeImage (str ''image/svg+xml'') (str ''PHN2Zy8+'')) =
     Inr \<lparr>mimeType = str ''image/svg+xml'', data = str ''PHN2Zy8+''\<rparr>"
  using parseBase64_encodeImage [of "str ''image/svg+xml''" "str ''PHN2Zy8+''"]
  by (simp add: str_def mime_char_def line_terminator_def)

text \<open>
  Claim C3 as stated fails: a payload with a line feed in it (base64 text wrapped into
  lines) is a non-empty payload, and the empty media type is made of characters of the
  class, yet in both cases the regular expression does not match what was encoded.
\<close>

theorem parseBase64_roundtrip_counterexample:
  "list_all mime_char (str ''image/png'') \<and> [0x51, 0x0A, 0x51] \<noteq> ([] :: jsstring) \<and>
   parseBase64 (encodeImage (str ''image/png'') [0x51, 0x0A, 0x51]) =
     Inl (Error (str ''Invalid input string'')) \<and>
   list_all mime_char [] \<and> str ''QUJD'' \<noteq> [] \<and>
   parseBase64 (encodeImage [] (str ''QUJD'')) = Inl (Error (str ''Invalid input string''))"
  by (simp add: parseBase64_def data_url_match_def encodeImage_def str_def mime_char_def
      line_terminator_def)

subsection \<open>One generation request\<close>

lemma first_inline_nonempty: "first_inline ps = Some img \<Longrightarrow> img \<noteq> []"
  by (induction ps) (auto simp: encodeImage_def str_def split: option.splits)

lemma extract_image_nonempty: "extract_image r = Inr img \<Longrightarrow> img \<noteq> []"
  by (auto simp: extract_image_def dest: first_inline_nonempty split: option.splits list.splits)

lemma generateTestImage_nonempty:
  "outcome (generateTestImage svc p r) = Inr img \<Longrightarrow> img \<noteq> []"
  by (auto simp: generateTestImage_def dest: extract_image_nonempty split: sum.splits)

lemma generateTestImage_logged:
  "logged (generateTestImage svc p r) =
     (case outcome (generateTestImage svc p r) of Inl e \<Rightarrow> [e] | Inr img \<Rightarrow> [])"
  by (simp add: generateTestImage_def split: sum.splits)

lemma generateTestImage_service_error:
  "build_parts p r = Inr ps \<Longrightarrow> svc ps = Inl e \<Longrightarrow>
   generateTestImage svc p r = \<lparr>sent = [ps], logged = [e], outcome = Inl e\<rparr>"
  by (simp add: generateTestImage_def)

lemma first_inline_None: "first_inline ps = None \<longleftrightarrow> (\<forall>p \<in> set ps. inlineData p = None)"
  by (induction ps) (auto split: option.splits)

text \<open>
  A response whose first candidate has no part with inline data, or no parts, or no
  content, or that has no \<open>candidates\<close> field at all.
\<close>

lemma extract_image_no_image:
  "candidates r \<noteq> Some [] \<Longrightarrow>
   (\<forall>c cs ct ps. candidates r = Some (c # cs) \<longrightarrow> content c = Some ct \<longrightarrow> parts ct = Some ps \<longrightarrow>
      (\<forall>p \<in> set ps. inlineData p = None)) \<Longrightarrow>
   extract_image r = Inl NO_IMAGE"
  by (auto simp: extract_image_def first_inline_None [symmetric] split: option.splits list.splits)

text \<open>
  Claim C8 fails on a response with an empty list of candidates: the response has
  come back, it has no inline image data, and generateTestImage rejects with the
  TypeError of reading \<open>response.candidates[0].content\<close>, which it logs, not with the
  error "No image data found in response".
\<close>

theorem generateTestImage_empty_candidates:
  "generateTestImage empty_service (str ''a cat'') None =
     \<lparr>sent = [[text_part (str ''a cat'')]], logged = [TypeError], outcome = Inl TypeError\<rparr> \<and>
   TypeError \<noteq> NO_IMAGE"
  by (simp add: generateTestImage_def build_parts_def extract_image_def empty_service_def
      NO_IMAGE_def)

subsection \<open>The comparison pair\<close>

lemma variant_prompts_distinct: "p @ str '' --v 1'' \<noteq> p @ str '' --v 2''"
  by (simp add: str_def)

lemma promise_all_Inr:
  "promise_all ord rA rB = Inr (a, b) \<longleftrightarrow> rA = Inr a \<and> rB = Inr b"
  by (auto simp: promise_all_def split: sum.splits settle_order.splits)

lemma promise_all_Inl:
  "promise_all ord rA rB = Inl e \<Longrightarrow> rA = Inl e \<or> rB = Inl e"
  by (auto simp: promise_all_def split: sum.splits settle_order.splits)

lemma generateComparisonPair_Inr:
  "outcome (generateComparisonPair svc ord p ri) = Inr pr \<longleftrightarrow>
     outcome (generateTestImage svc (p @ str '' --v 1'') ri) = Inr (imageA pr) \<and>
     outcome (generateTestImage svc (p @ str '' --v 2'') ri) = Inr (imageB pr)"
proof -
  have "pr = \<lparr>imageA = imageA pr, imageB = imageB pr\<rparr>"
    by simp
  then show ?thesis
    using promise_all_Inr [of ord "outcome (generateTestImage svc (p @ str '' --v 1'') ri)"
        "outcome (generateTestImage svc (p @ str '' --v 2'') ri)" "imageA pr" "imageB pr"]
    by (auto simp: generateComparisonPair_def Let_def split: sum.splits prod.splits)
qed

lemma generateComparisonPair_Inl:
  "outcome (generateComparisonPair svc ord p ri) = Inl e \<Longrightarrow>
     outcome (generateTestImage svc (p @ str '' --v 1'') ri) = Inl e \<or>
     outcome (generateTestImage svc (p @ str '' --v 2'') ri) = Inl e"
  using promise_all_Inl [of ord "outcome (generateTestImage svc (p @ str '' --v 1'') ri)"
        "outcome (generateTestImage svc (p @ str '' --v 2'') ri)" e]
  by (auto simp: generateComparisonPair_def Let_def split: sum.splits prod.splits)

lemma generateComparisonPair_populated:
  "outcome (generateComparisonPair svc ord p ri) = Inr pr \<Longrightarrow>
   imageA pr \<noteq> [] \<and> imageB pr \<noteq> []"
  unfolding generateComparisonPair_Inr by (auto dest: generateTestImage_nonempty)

text \<open>
  Claim C1. For every base prompt and optional reference image, generateComparisonPair
  calls the client exactly twice, with the base prompt followed by the two distinct
  markers and with the same reference image, and what it sends to the service is what
  these two calls send. It fulfils with a pair exactly when both calls fulfil, and then
  both images are non-empty; otherwise it rejects with the error of one of the two
  calls. The result type has no value with one image only.
\<close>

theorem generateComparisonPair_atomic:
  "calls (generateComparisonPair svc ord p ri) =
     [(p @ str '' --v 1'', ri), (p @ str '' --v 2'', ri)] \<and>
   p @ str '' --v 1'' \<noteq> p @ str '' --v 2'' \<and>
   sent (generateComparisonPair svc ord p ri) =
     sent (generateTestImage svc (p @ str '' --v 1'') ri) @
     sent (generateTestImage svc (p @ str '' --v 2'') ri) \<and>
   (\<forall>a b. outcome (generateComparisonPair svc ord p ri) = Inr \<lparr>imageA = a, imageB = b\<rparr> \<longleftrightarrow>
      outcome (generateTestImage svc (p @ str '' --v 1'') ri) = Inr a \<and>
      outcome (generateTestImage svc (p @ str '' --v 2'') ri) = Inr b) \<and>
   ((\<exists>a b. outcome (generateComparisonPair svc ord p ri) = Inr \<lparr>imageA = a, imageB = b\<rparr> \<and>
       a \<noteq> [] \<and> b \<noteq> []) \<or>
    (\<exists>e. outcome (generateComparisonPair svc ord p ri) = Inl e \<and>
       (outcome (generateTestImage svc (p @ str '' --v 1'') ri) = Inl e \<or>
        outcome (generateTestImage svc (p @ str '' --v 2'') ri) = Inl e)))"
proof -
  let ?R = "generateComparisonPair svc ord p ri"
  have c: "calls ?R = [(p @ str '' --v 1'', ri), (p @ str '' --v 2'', ri)]"
    by (simp add: generateComparisonPair_def Let_def)
  have s: "sent ?R = sent (generateTestImage svc (p @ str '' --v 1'') ri) @
     sent (generateTestImage svc (p @ str '' --v 2'') ri)"
    by (simp add: generateComparisonPair_def Let_def)
  have i: "\<forall>a b. outcome ?R = Inr \<lparr>imageA = a, imageB = b\<rparr> \<longleftrightarrow>
      outcome (generateTestImage svc (p @ str '' --v 1'') ri) = Inr a \<and>
      outcome (generateTestImage svc (p @ str '' --v 2'') ri) = Inr b"
    by (simp add: generateComparisonPair_Inr)
  have d: "(\<exists>a b. outcome ?R = Inr \<lparr>imageA = a, imageB = b\<rparr> \<and> a \<noteq> [] \<and> b \<noteq> []) \<or>
    (\<exists>e. outcome ?R = Inl e \<and>
       (outcome (generateTestImage svc (p @ str '' --v 1'') ri) = Inl e \<or>
        outcome (generateTestImage svc (p @ str '' --v 2'') ri) = Inl e))"
  proof (cases "outcome ?R")
    case (Inl e)
    then show ?thesis
      using generateComparisonPair_Inl [of svc ord p ri e] by simp
  next
    case (Inr pr)
    then have "imageA pr \<noteq> [] \<and> imageB pr \<noteq> []"
      by (rule generateComparisonPair_populated)
    moreover have "pr = \<lparr>imageA = imageA pr, imageB = imageB pr\<rparr>"
      by simp
    ultimately show ?thesis
      using Inr by metis
  qed
  from c variant_prompts_distinct s i d show ?thesis
    by blast
qed

theorem generateComparisonPair_atomic_witness:
  "outcome (generateComparisonPair image_service A_first (str ''cat'') None) =
     Inr \<lparr>imageA = str ''data:image/png;base64,QUJD'',
          imageB = str ''data:image/png;base64,QUJD''\<rparr> \<and>
   outcome (generateTestImage flaky_service (str ''cat --v 2'') None) =
     Inl (ServiceError (str ''503'')) \<and>
   outcome (generateComparisonPair flaky_service B_first (str ''cat'') None) =
     Inl (ServiceError (str ''503''))"
  using generateComparisonPair_atomic [of image_service A_first "str ''cat''" None]
    generateComparisonPair_atomic [of flaky_service B_first "str ''cat''" None]
  by (auto simp add: generateTestImage_def build_parts_def extract_image_def image_service_def
      flaky_service_def failing_service_def text_part_def inline_part_def encodeImage_def
      str_def)

section \<open>Properties of the handlers\<close>

lemmas setters =
  setPhase_def setSession_def setPrompt_def setUploadedImage_def setLoading_def
  setGeneratedImage_def setComparisonImages_def setMetrics_def setTextFeedback_def
  setError_def

text \<open>
  Claim C4. Whatever the state, handleStart with a role leaves the phase at USER_INPUT
  when the role is the general user and at GENERATION_EVAL for every other role, stores
  the role in the session and leaves the records alone; at ONBOARDING, clicking a role
  is possible and does just that.
\<close>

theorem handleStart_routes:
  "phase (handleStart r st) = (if r = GENERAL_USER then USER_INPUT else GENERATION_EVAL) \<and>
   role (session (handleStart r st)) = r \<and>
   singleEvals (session (handleStart r st)) = singleEvals (session st) \<and>
   abTests (session (handleStart r st)) = abTests (session st) \<and>
   (phase (ui s) = ONBOARDING \<longrightarrow>
      step (ClickRole r) s = Some (s\<lparr>ui := handleStart r (ui s)\<rparr>))"
  by (simp add: handleStart_def setters step_def)

theorem handleStart_routes_witness:
  "phase (handleStart GENERAL_USER initial_app) = USER_INPUT \<and>
   phase (handleStart DESIGNER initial_app) = GENERATION_EVAL \<and>
   phase (handleStart CREATOR initial_app) = GENERATION_EVAL \<and>
   phase (handleStart AI_EXPERT initial_app) = GENERATION_EVAL \<and>
   role (session (handleStart AI_EXPERT initial_app)) = AI_EXPERT \<and>
   step (ClickRole CREATOR) initial_sys =
     Some (initial_sys\<lparr>ui := handleStart CREATOR initial_app\<rparr>)"
  using handleStart_routes [of GENERAL_USER initial_app initial_sys]
    handleStart_routes [of DESIGNER initial_app initial_sys]
    handleStart_routes [of CREATOR initial_app initial_sys]
    handleStart_routes [of AI_EXPERT initial_app initial_sys]
  by (simp add: initial_sys_def initial_app_def)

text \<open>
  Claim C5. When a comparison pair exists, handleABSelection with a choice among A, B
  and Equal appends exactly one record to abTests: the choice, the feedback text as it
  is at that moment, the two images of the pair, the prompt, the uploaded image and
  the time. The phase is set to COMPLETED on a state that already holds the record and
  still has the old phase.
\<close>

theorem handleABSelection_appends:
  "comparisonImages st = Some c \<Longrightarrow>
   \<exists>mid r.
     r = \<lparr>ab_prompt = prompt st, sourceImage = or_undefined (uploadedImage st),
          ab_imageA = imgA c, ab_imageB = imgB c, selectedImage = sel,
          reasoning = textFeedback st, ab_timestamp = now\<rparr> \<and>
     handleABSelection sel now st = setPhase COMPLETED mid \<and>
     phase mid = phase st \<and>
     abTests (session mid) = abTests (session st) @ [r] \<and>
     abTests (session (handleABSelection sel now st)) = abTests (session st) @ [r] \<and>
     singleEvals (session (handleABSelection sel now st)) = singleEvals (session st) \<and>
     phase (handleABSelection sel now st) = COMPLETED"
proof -
  assume c: "comparisonImages st = Some c"
  let ?r = "\<lparr>ab_prompt = prompt st, sourceImage = or_undefined (uploadedImage st),
          ab_imageA = imgA c, ab_imageB = imgB c, selectedImage = sel,
          reasoning = textFeedback st, ab_timestamp = now\<rparr>"
  let ?mid = "setSession (\<lambda>prev. prev\<lparr>abTests := abTests prev @ [?r]\<rparr>) st"
  have "handleABSelection sel now st = setPhase COMPLETED ?mid"
    using c by (simp add: handleABSelection_def Let_def)
  moreover have "phase ?mid = phase st" "abTests (session ?mid) = abTests (session st) @ [?r]"
    "singleEvals (session ?mid) = singleEvals (session st)"
    by (simp_all add: setSession_def)
  ultimately show ?thesis
    by (intro exI [of _ ?mid] exI [of _ ?r]) (simp add: setPhase_def)
qed

lemma handleSubmitSingleEval_guard:
  "\<not> truthy (generatedImage st) \<Longrightarrow> handleSubmitSingleEval now st = st"
  by (simp add: handleSubmitSingleEval_def truthy_def split: option.splits)

lemma handleABSelection_guard:
  "comparisonImages st = None \<Longrightarrow> handleABSelection sel now st = st"
  by (simp add: handleABSelection_def)

lemma handleGeneralUserSubmit_guard:
  "\<not> truthy (uploadedImage st) \<or> trim (prompt st) = [] \<Longrightarrow>
   handleGeneralUserSubmit st = (st, None)"
  by (simp add: handleGeneralUserSubmit_def)

lemma handleGenerateSingle_guard:
  "trim (prompt st) = [] \<Longrightarrow> handleGenerateSingle st = (st, None)"
  by (simp add: handleGenerateSingle_def)

text \<open>
  Claim C10. Each handler returns the state as it was when what it needs is absent:
  handleSubmitSingleEval without a generated image, handleABSelection without a
  comparison pair, handleGeneralUserSubmit without an uploaded image or with a blank
  intent, handleGenerateSingle with a blank prompt. The last two then wait for no call,
  so that the whole handler changes nothing.
\<close>

theorem guards_no_op:
  "(\<not> truthy (generatedImage st) \<longrightarrow> handleSubmitSingleEval now st = st) \<and>
   (comparisonImages st = None \<longrightarrow> handleABSelection sel now st = st) \<and>
   (\<not> truthy (uploadedImage st) \<or> trim (prompt st) = [] \<longrightarrow>
      handleGeneralUserSubmit st = (st, None) \<and> handleGeneralUserSubmit_run svc ord st = st) \<and>
   (trim (prompt st) = [] \<longrightarrow>
      handleGenerateSingle st = (st, None) \<and> handleGenerateSingle_run svc st = st)"
  using handleSubmitSingleEval_guard [of st now] handleABSelection_guard [of st sel now]
    handleGeneralUserSubmit_guard [of st] handleGenerateSingle_guard [of st]
  by (simp add: handleGeneralUserSubmit_run_def handleGenerateSingle_run_def)

lemma nth_fresh: "map (\<lambda>a. (xs @ ys) ! a) [length xs ..< length xs + length ys] = ys"
  by (rule nth_equalityI) (simp_all add: nth_append)

lemma nth_old:
  "list_all (\<lambda>a. a < length xs) as \<Longrightarrow>
   map (\<lambda>a. (xs @ ys) ! a) as = map (\<lambda>a. xs ! a) as"
  by (induction as) (auto simp: nth_append)

text \<open>
  The submission of a single evaluation on any state whose metric references are in
  order; every state of a session is such a state, as shown further down.
\<close>

lemma handleSubmitSingleEval_wf_snapshot:
  assumes "wf_app st" and "truthy (generatedImage st)"
  shows "\<exists>mid r.
     handleSubmitSingleEval now st = setPhase AB_TEST mid \<and>
     phase mid = phase st \<and>
     singleEvals (session mid) = singleEvals (session st) @ [r] \<and>
     singleEvals (session (handleSubmitSingleEval now st)) = singleEvals (session st) @ [r] \<and>
     abTests (session (handleSubmitSingleEval now st)) = abTests (session st) \<and>
     se_prompt r = prompt st \<and> generatedImage st = Some (se_image r) \<and>
     feedback r = textFeedback st \<and> se_timestamp r = now \<and>
     length (se_metrics r) = 4 \<and>
     recorded_metrics st r = shown_metrics st \<and>
     recorded_metrics (handleSubmitSingleEval now st) r = shown_metrics st \<and>
     shown_metrics (handleSubmitSingleEval now st) = INITIAL_METRICS_LITERAL \<and>
     map score (shown_metrics (handleSubmitSingleEval now st)) = [3, 3, 3, 3] \<and>
     phase (handleSubmitSingleEval now st) = AB_TEST"
proof -
  from assms(2) obtain img where img: "generatedImage st = Some img" "img \<noteq> []"
    by (auto simp: truthy_def split: option.splits)
  let ?objs = "map (\<lambda>a. (heap st ! a)\<lparr>score := 3\<rparr>) INITIAL_METRICS"
  let ?r = "\<lparr>se_prompt = prompt st, se_image = img, se_metrics = metrics st,
             feedback = textFeedback st, se_timestamp = now\<rparr>"
  let ?mid = "st\<lparr>session := (session st)\<lparr>singleEvals := singleEvals (session st) @ [?r]\<rparr>,
                generatedImage := None, prompt := [], heap := heap st @ ?objs,
                metrics := [length (heap st) ..< length (heap st) + length ?objs],
                textFeedback := []\<rparr>"
  have objs: "?objs = INITIAL_METRICS_LITERAL"
    using assms(1) by (simp add: wf_app_def)
  have h: "handleSubmitSingleEval now st = setPhase AB_TEST ?mid"
    using img by (simp add: handleSubmitSingleEval_def fresh_metrics_def setters Let_def)
  have old: "map (\<lambda>a. (heap st @ ?objs) ! a) (metrics st) = map (\<lambda>a. heap st ! a) (metrics st)"
    using assms(1) by (intro nth_old) (simp add: wf_app_def)
  have new: "map (\<lambda>a. (heap st @ ?objs) ! a) [length (heap st) ..< length (heap st) + length ?objs]
      = ?objs"
    by (rule nth_fresh)
  have rec: "recorded_metrics (handleSubmitSingleEval now st) ?r = shown_metrics st"
    unfolding h using old by (simp add: recorded_metrics_def shown_metrics_def setters)
  have shown: "shown_metrics (handleSubmitSingleEval now st) = INITIAL_METRICS_LITERAL"
    unfolding h using new objs by (simp add: shown_metrics_def setters)
  have scores: "map score INITIAL_METRICS_LITERAL = [3, 3, 3, 3]"
    by (simp add: INITIAL_METRICS_LITERAL_def)
  have len: "length (metrics st) = 4"
    using assms(1) by (simp add: wf_app_def)
  show ?thesis
    apply (rule exI [of _ ?mid])
    apply (rule exI [of _ ?r])
    using h rec shown scores len img
    by (simp add: setters recorded_metrics_def shown_metrics_def)
qed

lemmas handlers =
  handleStart_def handleGenerateSingle_def handleGenerateSingle_settled_def onChangeMetric_def
  fresh_metrics_def handleSubmitSingleEval_def handleGeneralUserSubmit_def
  handleGeneralUserSubmit_settled_def testPrompt_def handleStartProfessionalABTest_def
  handleStartProfessionalABTest_settled_def or_undefined_def handleABSelection_def

lemmas chars = str_def white_space_def line_terminator_def trim_def truthy_def

lemma ui_rated_state:
  "ui rated_state =
     \<lparr>phase = GENERATION_EVAL,
      session = \<lparr>role = DESIGNER, experienceLevel = 5, singleEvals = [], abTests = []\<rparr>,
      prompt = str ''a red bicycle'',
      uploadedImage = None,
      loading = False,
      generatedImage = Some example_image,
      comparisonImages = None,
      metrics = INITIAL_METRICS,
      textFeedback = [],
      error = None,
      heap = INITIAL_METRICS_LITERAL[1 := (INITIAL_METRICS_LITERAL ! 1)\<lparr>score := 9 / 2\<rparr>]\<rparr>"
  by (simp add: rated_state_def initial_sys_def initial_app_def handlers setters chars
      INITIAL_METRICS_def)

lemma ui_upload_state:
  "ui upload_state =
     \<lparr>phase = USER_INPUT,
      session = \<lparr>role = GENERAL_USER, experienceLevel = 5, singleEvals = [], abTests = []\<rparr>,
      prompt = str ''make it look like winter'',
      uploadedImage = Some example_image,
      loading = False,
      generatedImage = None,
      comparisonImages = None,
      metrics = INITIAL_METRICS,
      textFeedback = [],
      error = None,
      heap = INITIAL_METRICS_LITERAL\<rparr>"
  by (simp add: upload_state_def initial_sys_def initial_app_def handlers setters)

lemma example_image_nonempty: "example_image \<noteq> []"
  by (simp add: example_image_def str_def)

lemma winter_nonempty: "str ''make it look like winter'' \<noteq> []"
  by (simp add: str_def)

lemma trim_winter: "trim (str ''make it look like winter'') = str ''make it look like winter''"
  by (simp add: chars)

lemma ui_compare_state:
  "ui compare_state =
     \<lparr>phase = AB_TEST,
      session = \<lparr>role = GENERAL_USER, experienceLevel = 5, singleEvals = [], abTests = []\<rparr>,
      prompt = str ''make it look like winter'',
      uploadedImage = Some example_image,
      loading = False,
      generatedImage = None,
      comparisonImages = Some \<lparr>imgA = example_image, imgB = example_image\<rparr>,
      metrics = INITIAL_METRICS,
      textFeedback = [],
      error = None,
      heap = INITIAL_METRICS_LITERAL\<rparr>"
  by (simp add: compare_state_def ui_upload_state handlers setters trim_winter truthy_def
      example_image_nonempty winter_nonempty)

theorem handleABSelection_appends_witness:
  "comparisonImages (ui compare_state) = Some \<lparr>imgA = example_image, imgB = example_image\<rparr> \<and>
   abTests (session (handleABSelection Pick_B 1700000000000 (ui compare_state))) =
     [\<lparr>ab_prompt = str ''make it look like winter'', sourceImage = Some example_image,
       ab_imageA = example_image, ab_imageB = example_image, selectedImage = Pick_B,
       reasoning = [], ab_timestamp = 1700000000000\<rparr>] \<and>
   phase (handleABSelection Pick_B 1700000000000 (ui compare_state)) = COMPLETED"
proof -
  have c: "comparisonImages (ui compare_state) =
      Some \<lparr>imgA = example_image, imgB = example_image\<rparr>"
    by (simp add: ui_compare_state)
  show ?thesis
    using handleABSelection_appends [OF c, of Pick_B 1700000000000] c
    by (auto simp: ui_compare_state or_undefined_def truthy_def example_image_def str_def)
qed

theorem guards_no_op_witness:
  "handleSubmitSingleEval 0 initial_app = initial_app \<and>
   handleABSelection Pick_A 0 initial_app = initial_app \<and>
   handleGeneralUserSubmit initial_app = (initial_app, None) \<and>
   handleGeneralUserSubmit_run image_service A_first initial_app = initial_app \<and>
   handleGeneralUserSubmit (setPrompt (str '' '') (ui upload_state)) =
     (setPrompt (str '' '') (ui upload_state), None) \<and>
   handleGenerateSingle (setPrompt (str '' '') initial_app) =
     (setPrompt (str '' '') initial_app, None) \<and>
   handleGenerateSingle_run image_service (setPrompt (str '' '') initial_app) =
     setPrompt (str '' '') initial_app"
  using guards_no_op [of initial_app 0 Pick_A image_service A_first]
    guards_no_op [of "setPrompt (str '' '') (ui upload_state)" 0 Pick_A image_service A_first]
    guards_no_op [of "setPrompt (str '' '') initial_app" 0 Pick_A image_service A_first]
  by (simp add: initial_app_def setPrompt_def chars)

lemma parseBase64_example_image:
  "parseBase64 example_image = Inr \<lparr>mimeType = str ''image/png'', data = str ''QUJD''\<rparr>"
  by (simp add: parseBase64_def data_url_match_def example_image_def str_def mime_char_def
      line_terminator_def)

lemma pair_failing_service:
  "outcome (generateComparisonPair failing_service ord p None) = Inl (ServiceError (str ''503''))"
  by (simp add: generateComparisonPair_def generateTestImage_def build_parts_def
      failing_service_def promise_all_def Let_def split: settle_order.splits)

section \<open>What holds throughout a session\<close>

lemma wf_app_updates [simp]:
  "wf_app (st\<lparr>phase := a\<rparr>) = wf_app st"
  "wf_app (st\<lparr>session := b\<rparr>) = wf_app st"
  "wf_app (st\<lparr>prompt := c\<rparr>) = wf_app st"
  "wf_app (st\<lparr>uploadedImage := d\<rparr>) = wf_app st"
  "wf_app (st\<lparr>loading := e\<rparr>) = wf_app st"
  "wf_app (st\<lparr>generatedImage := f\<rparr>) = wf_app st"
  "wf_app (st\<lparr>comparisonImages := g\<rparr>) = wf_app st"
  "wf_app (st\<lparr>textFeedback := h\<rparr>) = wf_app st"
  "wf_app (st\<lparr>error := i\<rparr>) = wf_app st"
  by (simp_all add: wf_app_def)

lemma wf_app_initial: "wf_app initial_app"
  by (simp add: wf_app_def initial_app_def INITIAL_METRICS_def INITIAL_METRICS_LITERAL_def)

lemma rescore_update:
  "i < length h \<Longrightarrow> (h[a := (h ! a)\<lparr>score := v\<rparr>] ! i)\<lparr>score := w\<rparr> = (h ! i)\<lparr>score := w\<rparr>"
  by (cases "i = a") simp_all

lemma wf_app_onChangeMetric:
  assumes "wf_app st" and "onChangeMetric idx val st = Inr st'"
  shows "wf_app st'"
proof -
  let ?a = "metrics st ! idx"
  from assms(2) have st': "st' = st\<lparr>heap := (heap st)[?a := (heap st ! ?a)\<lparr>score := val\<rparr>]\<rparr>"
    by (simp add: onChangeMetric_def setMetrics_def Let_def split: if_splits)
  from assms(1) have "4 \<le> length (heap st)" "heap st \<noteq> []"
    by (auto simp: wf_app_def)
  then have "map (\<lambda>a. ((heap st)[?a := (heap st ! ?a)\<lparr>score := val\<rparr>] ! a)\<lparr>score := 3\<rparr>)
      INITIAL_METRICS = map (\<lambda>a. (heap st ! a)\<lparr>score := 3\<rparr>) INITIAL_METRICS"
    by (simp add: INITIAL_METRICS_def rescore_update)
  with assms(1) show ?thesis
    unfolding st' by (simp add: wf_app_def)
qed

lemma length_INITIAL_METRICS_LITERAL [simp]: "length INITIAL_METRICS_LITERAL = 4"
  by (simp add: INITIAL_METRICS_LITERAL_def)

lemma wf_app_handleSubmitSingleEval: "wf_app st \<Longrightarrow> wf_app (handleSubmitSingleEval now st)"
proof -
  assume wf: "wf_app st"
  then have "heap st \<noteq> []"
    by (auto simp: wf_app_def)
  with wf show ?thesis
    by (auto simp: wf_app_def handleSubmitSingleEval_def fresh_metrics_def setters Let_def
        INITIAL_METRICS_def nth_append split: option.splits)
qed

lemma session_inv_initial: "session_inv initial_sys"
  using wf_app_initial by (simp add: session_inv_def initial_sys_def) (simp add: initial_app_def)

lemma session_inv_ClickRole: "enabled (ClickRole r) s \<Longrightarrow> session_inv s \<Longrightarrow> session_inv (fire (ClickRole r) s)"
  by (clarsimp simp add: session_inv_def handleStart_def setters Let_def)

lemma session_inv_ChooseFile: "enabled ChooseFile s \<Longrightarrow> session_inv s \<Longrightarrow> session_inv (fire ChooseFile s)"
  by (clarsimp simp add: session_inv_def)

lemma session_inv_FileLoaded: "enabled (FileLoaded v) s \<Longrightarrow> session_inv s \<Longrightarrow> session_inv (fire (FileLoaded v) s)"
  by (clarsimp simp add: session_inv_def setters in_diff_count) 

lemma session_inv_ChangePrompt: "enabled (ChangePrompt p) s \<Longrightarrow> session_inv s \<Longrightarrow> session_inv (fire (ChangePrompt p) s)"
  by (clarsimp simp add: session_inv_def setters)

lemma session_inv_ChangeFeedback:
  "enabled (ChangeFeedback t) s \<Longrightarrow> session_inv s \<Longrightarrow> session_inv (fire (ChangeFeedback t) s)"
  by (clarsimp simp add: session_inv_def setters)

lemma session_inv_ClickGeneralSubmit:
  "enabled ClickGeneralSubmit s \<Longrightarrow> session_inv s \<Longrightarrow> session_inv (fire ClickGeneralSubmit s)"
  by (clarsimp simp add: session_inv_def handleGeneralUserSubmit_def button_clickable_def setters
      not_in_iff)

lemma session_inv_SettleGeneralSubmit:
  "enabled (SettleGeneralSubmit r) s \<Longrightarrow> session_inv s \<Longrightarrow> session_inv (fire (SettleGeneralSubmit r) s)"
  by (cases r)
    (clarsimp simp add: session_inv_def handleGeneralUserSubmit_settled_def setters in_diff_count)+

lemma session_inv_ClickGenerate:
  "enabled ClickGenerate s \<Longrightarrow> session_inv s \<Longrightarrow> session_inv (fire ClickGenerate s)"
  by (clarsimp simp add: session_inv_def handleGenerateSingle_def setters)

lemma session_inv_SettleGenerate:
  "enabled (SettleGenerate r) s \<Longrightarrow> session_inv s \<Longrightarrow> session_inv (fire (SettleGenerate r) s)"
  by (cases r)
    (clarsimp simp add: session_inv_def handleGenerateSingle_settled_def setters in_diff_count)+

lemma session_inv_ClickStartAB:
  "enabled (ClickStartAB rnd) s \<Longrightarrow> session_inv s \<Longrightarrow> session_inv (fire (ClickStartAB rnd) s)"
  by (clarsimp simp add: session_inv_def handleStartProfessionalABTest_def start_panel_shown_def
      setters)

lemma session_inv_SettleStartAB:
  "enabled (SettleStartAB r) s \<Longrightarrow> session_inv s \<Longrightarrow> session_inv (fire (SettleStartAB r) s)"
  by (cases r; cases "phase (ui s)")
    (clarsimp simp add: session_inv_def handleStartProfessionalABTest_settled_def setters
      in_diff_count)+

lemma session_inv_Select:
  "enabled (Select c now) s \<Longrightarrow> session_inv s \<Longrightarrow> session_inv (fire (Select c now) s)"
  by (clarsimp simp add: session_inv_def handleABSelection_def selection_panel_shown_def setters
      Let_def)

lemma session_inv_ChangeMetric:
  assumes "enabled (ChangeMetric idx val) s" and "session_inv s"
  shows "session_inv (fire (ChangeMetric idx val) s)"
proof -
  from assms(1) obtain st' where st': "onChangeMetric idx val (ui s) = Inr st'"
    by (auto simp: onChangeMetric_def Let_def)
  then have same: "phase st' = phase (ui s)" "session st' = session (ui s)"
    "comparisonImages st' = comparisonImages (ui s)" "loading st' = loading (ui s)"
    by (auto simp: onChangeMetric_def setMetrics_def Let_def split: if_splits)
  from assms(2) have "wf_app (ui s)"
    by (simp add: session_inv_def)
  then have wf: "wf_app st'"
    using st' by (rule wf_app_onChangeMetric)
  have f: "fire (ChangeMetric idx val) s = s\<lparr>ui := st'\<rparr>"
    using st' by simp
  from assms show ?thesis
    unfolding f by (clarsimp simp add: session_inv_def same wf)
qed

lemma session_inv_ClickSubmitSingleEval:
  assumes "enabled (ClickSubmitSingleEval now) s" and "session_inv s"
  shows "session_inv (fire (ClickSubmitSingleEval now) s)"
proof -
  let ?st = "ui s"
  let ?st' = "handleSubmitSingleEval now ?st"
  from assms have wf: "wf_app ?st" and t: "truthy (generatedImage ?st)"
    by (simp_all add: session_inv_def)
  from wf have wf': "wf_app ?st'"
    by (rule wf_app_handleSubmitSingleEval)
  from t obtain img where img: "generatedImage ?st = Some img" "img \<noteq> []"
    by (auto simp: truthy_def split: option.splits)
  have fields: "phase ?st' = AB_TEST"
    "singleEvals (session ?st') = singleEvals (session ?st) @
       [\<lparr>se_prompt = prompt ?st, se_image = img, se_metrics = metrics ?st,
         feedback = textFeedback ?st, se_timestamp = now\<rparr>]"
    "abTests (session ?st') = abTests (session ?st)"
    "role (session ?st') = role (session ?st)"
    "comparisonImages ?st' = comparisonImages ?st"
    using img
    by (simp_all add: handleSubmitSingleEval_def fresh_metrics_def setters Let_def
        INITIAL_METRICS_def)
  have f: "ui (fire (ClickSubmitSingleEval now) s) = ?st'"
    "pending (fire (ClickSubmitSingleEval now) s) = pending s"
    by simp_all
  from assms show ?thesis
    unfolding session_inv_def f by (clarsimp simp add: fields wf')
qed

lemma session_inv_fire: "enabled e s \<Longrightarrow> session_inv s \<Longrightarrow> session_inv (fire e s)"
  by (cases e)
    (simp_all only: session_inv_ClickRole session_inv_ChooseFile session_inv_FileLoaded
      session_inv_ChangePrompt session_inv_ChangeFeedback session_inv_ClickGeneralSubmit
      session_inv_SettleGeneralSubmit session_inv_ClickGenerate session_inv_SettleGenerate
      session_inv_ClickStartAB session_inv_SettleStartAB session_inv_Select
      session_inv_ChangeMetric session_inv_ClickSubmitSingleEval)

lemma step_Some: "step e s = Some s' \<longleftrightarrow> enabled e s \<and> s' = fire e s"
  by (auto simp: step_def)

lemma reachable_session_inv: "reachable s \<Longrightarrow> session_inv s"
  by (induction rule: reachable.induct)
    (auto simp: session_inv_initial step_Some session_inv_fire)

lemma reachable_fire: "reachable s \<Longrightarrow> enabled e s \<Longrightarrow> reachable (fire e s)"
  by (rule reachable_step [of s e]) (simp_all add: step_def)

lemmas fire_defs =
  handleStart_def handleGenerateSingle_def handleGenerateSingle_settled_def
  handleGeneralUserSubmit_def handleGeneralUserSubmit_settled_def
  handleStartProfessionalABTest_def handleStartProfessionalABTest_settled_def
  handleABSelection_def selection_panel_shown_def start_panel_shown_def
  button_clickable_def setters Let_def

text \<open>The two submissions, on a state of a session.\<close>

lemma fire_ClickSubmitSingleEval:
  assumes "enabled (ClickSubmitSingleEval now) s" and "session_inv s"
  shows "phase (ui (fire (ClickSubmitSingleEval now) s)) = AB_TEST"
    and "\<exists>r. singleEvals (session (ui (fire (ClickSubmitSingleEval now) s))) = [r]"
    and "abTests (session (ui (fire (ClickSubmitSingleEval now) s))) = []"
    and "singleEvals (session (ui s)) = []"
    and "abTests (session (ui s)) = []"
proof -
  from assms have e: "singleEvals (session (ui s)) = []" "abTests (session (ui s)) = []"
    and t: "truthy (generatedImage (ui s))"
    by (simp_all add: session_inv_def)
  from t obtain img where "generatedImage (ui s) = Some img" "img \<noteq> []"
    by (auto simp: truthy_def split: option.splits)
  with e show "phase (ui (fire (ClickSubmitSingleEval now) s)) = AB_TEST"
    and "\<exists>r. singleEvals (session (ui (fire (ClickSubmitSingleEval now) s))) = [r]"
    and "abTests (session (ui (fire (ClickSubmitSingleEval now) s))) = []"
    and "singleEvals (session (ui s)) = []"
    and "abTests (session (ui s)) = []"
    by (simp_all add: handleSubmitSingleEval_def fresh_metrics_def setters Let_def)
qed

lemma fire_Select:
  assumes "enabled (Select c now) s" and "session_inv s"
  shows "phase (ui (fire (Select c now) s)) = COMPLETED"
    and "\<exists>r. abTests (session (ui (fire (Select c now) s))) = [r]"
    and "singleEvals (session (ui (fire (Select c now) s))) = singleEvals (session (ui s))"
    and "abTests (session (ui s)) = []"
    and "heap (ui (fire (Select c now) s)) = heap (ui s)"
  using assms by (auto simp: session_inv_def fire_defs)

text \<open>Every other event leaves both sequences as they are.\<close>

lemma fire_other:
  assumes "enabled e s" and "appended e = (0, 0)"
  shows "singleEvals (session (ui (fire e s))) = singleEvals (session (ui s)) \<and>
    abTests (session (ui (fire e s))) = abTests (session (ui s))"
  using assms
  by (cases e)
    (simp_all add: fire_defs onChangeMetric_def split: sum.splits if_splits)

lemma fire_other_heap:
  assumes "enabled e s" and "\<forall>now. e \<noteq> ClickSubmitSingleEval now"
    and "\<forall>idx val. e \<noteq> ChangeMetric idx val"
  shows "heap (ui (fire e s)) = heap (ui s)"
  using assms
  by (cases e) (simp_all add: fire_defs split: sum.splits if_splits option.splits)

lemma records_kept:
  assumes "enabled e s" and "session_inv s"
  shows "map (recorded_metrics (ui (fire e s))) (singleEvals (session (ui s))) =
    map (recorded_metrics (ui s)) (singleEvals (session (ui s)))"
proof (cases "singleEvals (session (ui s)) = []")
  case True
  then show ?thesis by simp
next
  case False
  with assms(2) have ph: "phase (ui s) \<noteq> GENERATION_EVAL"
    by (auto simp: session_inv_def)
  have "\<forall>now. e \<noteq> ClickSubmitSingleEval now"
    using assms(1) ph by (cases e) simp_all
  moreover have "\<forall>idx val. e \<noteq> ChangeMetric idx val"
    using assms(1) ph by (cases e) simp_all
  ultimately have "heap (ui (fire e s)) = heap (ui s)"
    using assms(1) by (intro fire_other_heap)
  then show ?thesis
    by (simp add: recorded_metrics_def)
qed

lemma phase_order:
  assumes "enabled e s" and "session_inv s"
  shows "phase_rank (phase (ui s)) \<le> phase_rank (phase (ui (fire e s))) \<or>
    phase (ui s) = AB_TEST \<and> phase (ui (fire e s)) = USER_INPUT \<and>
    singleEvals (session (ui (fire e s))) = [] \<and> abTests (session (ui (fire e s))) = []"
proof (cases e)
  case (ClickSubmitSingleEval now)
  with assms show ?thesis
    using fire_ClickSubmitSingleEval(1) [of now s] by simp
next
  case (ChangeMetric idx val)
  with assms show ?thesis
    by (simp add: onChangeMetric_def setters Let_def)
next
  case (Select c now)
  with assms show ?thesis
    using fire_Select(1) [of c now s] by simp
next
  case (SettleGeneralSubmit r)
  with assms show ?thesis
    by (cases r) (clarsimp simp add: session_inv_def fire_defs)+
qed (use assms in \<open>simp_all add: fire_defs split: sum.splits if_splits\<close>)

lemma phase_change_appends:
  assumes "enabled e s" and "session_inv s" and "phase (ui (fire e s)) \<noteq> phase (ui s)"
  shows "appended e = (if phase (ui s) = GENERATION_EVAL then 1 else 0,
                       if phase (ui (fire e s)) = COMPLETED then 1 else 0)"
proof (cases e)
  case (ClickSubmitSingleEval now)
  with assms show ?thesis
    using fire_ClickSubmitSingleEval(1) [of now s] by simp
next
  case (ChangeMetric idx val)
  with assms show ?thesis
    by (simp add: onChangeMetric_def setters Let_def)
next
  case (Select c now)
  with assms show ?thesis
    using fire_Select(1) [of c now s] by simp
next
  case (SettleGeneralSubmit r)
  with assms show ?thesis
    by (cases r) (clarsimp simp add: session_inv_def fire_defs)+
qed (use assms in \<open>simp_all add: fire_defs split: sum.splits if_splits\<close>)

lemma appends_change_phase:
  assumes "enabled e s" and "session_inv s" and "appended e \<noteq> (0, 0)"
  shows "phase (ui (fire e s)) \<noteq> phase (ui s)"
proof (cases e)
  case (ClickSubmitSingleEval now)
  with assms show ?thesis
    using fire_ClickSubmitSingleEval(1) [of now s] by simp
next
  case (Select c now)
  with assms show ?thesis
    using fire_Select(1) [of c now s] by simp
qed (use assms in simp_all)

lemma appends_counted:
  assumes "enabled e s" and "session_inv s"
  shows "\<exists>rs as.
    singleEvals (session (ui (fire e s))) = singleEvals (session (ui s)) @ rs \<and>
    length rs = fst (appended e) \<and>
    abTests (session (ui (fire e s))) = abTests (session (ui s)) @ as \<and>
    length as = snd (appended e)"
proof (cases "appended e = (0, 0)")
  case True
  with assms(1) have "singleEvals (session (ui (fire e s))) = singleEvals (session (ui s)) \<and>
    abTests (session (ui (fire e s))) = abTests (session (ui s))"
    by (rule fire_other)
  with True show ?thesis
    by simp
next
  case False
  then consider now where "e = ClickSubmitSingleEval now" | c now where "e = Select c now"
    by (cases e) simp_all
  then show ?thesis
  proof cases
    case 1
    with assms fire_ClickSubmitSingleEval [of now s] show ?thesis
      by auto
  next
    case 2
    with assms fire_Select [of c now s] show ?thesis
      by auto
  qed
qed

section \<open>The history of a session\<close>

text \<open>
  Claim C9. In every state a session can reach, whatever happens next: singleEvals and
  abTests keep what they hold and grow at the end, by exactly one record when a single
  evaluation or a pairwise choice is submitted and by nothing otherwise; the metric
  objects of the records already appended read as before. A change of phase appends one
  single-evaluation record exactly when it leaves GENERATION_EVAL and one pairwise
  record exactly when it enters COMPLETED, and each submission changes the phase. The
  phase never goes back, with one exception that touches no record: the upload flow,
  having entered AB_TEST when its generation started, returns to USER_INPUT when the
  generation fails, and then both sequences are empty. So the phases before AB_TEST are
  only occupied with no record at all, AB_TEST only with no pairwise record, and each
  sequence holds at most one record.
\<close>

theorem history_append_only:
  assumes "reachable s" and "step e s = Some s'"
  shows "(\<exists>rs as.
      singleEvals (session (ui s')) = singleEvals (session (ui s)) @ rs \<and>
      length rs = fst (appended e) \<and>
      abTests (session (ui s')) = abTests (session (ui s)) @ as \<and>
      length as = snd (appended e)) \<and>
    map (recorded_metrics (ui s')) (singleEvals (session (ui s))) =
      map (recorded_metrics (ui s)) (singleEvals (session (ui s))) \<and>
    (phase (ui s') \<noteq> phase (ui s) \<longrightarrow>
       appended e = (if phase (ui s) = GENERATION_EVAL then 1 else 0,
                     if phase (ui s') = COMPLETED then 1 else 0)) \<and>
    (appended e \<noteq> (0, 0) \<longrightarrow> phase (ui s') \<noteq> phase (ui s)) \<and>
    (phase_rank (phase (ui s)) \<le> phase_rank (phase (ui s')) \<or>
     phase (ui s) = AB_TEST \<and> phase (ui s') = USER_INPUT \<and>
     singleEvals (session (ui s')) = [] \<and> abTests (session (ui s')) = []) \<and>
    (phase_rank (phase (ui s')) \<le> 1 \<longrightarrow>
       singleEvals (session (ui s')) = [] \<and> abTests (session (ui s')) = []) \<and>
    (phase (ui s') = AB_TEST \<longrightarrow> abTests (session (ui s')) = []) \<and>
    length (singleEvals (session (ui s'))) \<le> 1 \<and>
    length (abTests (session (ui s'))) \<le> 1"
proof -
  from assms(1) have i: "session_inv s"
    by (rule reachable_session_inv)
  from assms(2) have e: "enabled e s" and s': "s' = fire e s"
    by (simp_all add: step_Some)
  from e i have i': "session_inv s'"
    unfolding s' by (rule session_inv_fire)
  from i' have later: "(phase_rank (phase (ui s')) \<le> 1 \<longrightarrow>
       singleEvals (session (ui s')) = [] \<and> abTests (session (ui s')) = []) \<and>
    (phase (ui s') = AB_TEST \<longrightarrow> abTests (session (ui s')) = []) \<and>
    length (singleEvals (session (ui s'))) \<le> 1 \<and>
    length (abTests (session (ui s'))) \<le> 1"
    by (simp add: session_inv_def)
  from appends_counted [OF e i] records_kept [OF e i] phase_change_appends [OF e i]
    appends_change_phase [OF e i] phase_order [OF e i] later
  show ?thesis
    unfolding s' by blast
qed

lemma reachable_rated_state: "reachable rated_state"
  unfolding rated_state_def
  by (intro reachable_fire reachable_init)
    (simp_all add: initial_sys_def initial_app_def handlers setters chars
      button_clickable_def INITIAL_METRICS_def example_image_nonempty)

lemma reachable_upload_state: "reachable upload_state"
  unfolding upload_state_def
  by (intro reachable_fire reachable_init)
    (simp_all add: initial_sys_def initial_app_def handlers setters)

lemma pending_upload_state: "pending upload_state = {#}"
  by (simp add: upload_state_def initial_sys_def initial_app_def handlers setters)

lemma reachable_compare_state: "reachable compare_state"
  unfolding compare_state_def
  by (intro reachable_fire reachable_upload_state)
    (simp_all add: ui_upload_state handlers setters button_clickable_def truthy_def
      example_image_nonempty trim_winter winter_nonempty)

lemma reachable_reasoned_state: "reachable reasoned_state"
  unfolding reasoned_state_def
  by (intro reachable_fire reachable_compare_state)
    (simp add: ui_compare_state selection_panel_shown_def)

theorem history_append_only_witness:
  "reachable rated_state \<and>
   step (ClickSubmitSingleEval 1700000000000) rated_state = Some professional_ab_state \<and>
   length (singleEvals (session (ui professional_ab_state))) = 1 \<and>
   phase (ui professional_ab_state) \<noteq> phase (ui rated_state) \<and>
   reachable compare_state \<and>
   step (Select Pick_B 1700000000000) compare_state =
     Some (fire (Select Pick_B 1700000000000) compare_state) \<and>
   length (abTests (session (ui (fire (Select Pick_B 1700000000000) compare_state)))) = 1 \<and>
   step (FileLoaded None) compare_state = None"
proof -
  have 1: "step (ClickSubmitSingleEval 1700000000000) rated_state = Some professional_ab_state"
    by (simp add: step_def professional_ab_state_def ui_rated_state truthy_def
        example_image_nonempty)
  have 2: "step (Select Pick_B 1700000000000) compare_state =
     Some (fire (Select Pick_B 1700000000000) compare_state)"
    by (simp add: step_def ui_compare_state selection_panel_shown_def)
  have 3: "singleEvals (session (ui rated_state)) = []"
    "abTests (session (ui compare_state)) = []"
    by (simp_all add: ui_rated_state ui_compare_state)
  have 4: "step (FileLoaded None) compare_state = None"
    by (simp add: step_def compare_state_def pending_upload_state handlers setters
        ui_upload_state truthy_def example_image_nonempty trim_winter winter_nonempty)
  from history_append_only [OF reachable_rated_state 1]
    history_append_only [OF reachable_compare_state 2] 1 2 3 4
    reachable_rated_state reachable_compare_state
  show ?thesis
    by auto
qed

section \<open>The submission of a single evaluation\<close>

lemma reachable_wf_app: "reachable s \<Longrightarrow> wf_app (ui s)"
  by (drule reachable_session_inv) (simp add: session_inv_def)

text \<open>
  Claim C2. When a generated image exists, handleSubmitSingleEval appends exactly one
  record to singleEvals. Its metrics are the four metric objects the sliders showed at
  that moment, and they still are after the handler has reset the catalog, since the
  reset makes new objects; the catalog shown afterwards is the four defaults with score
  3. The phase is set to AB_TEST on a state that already holds the record and still has
  the old phase.
\<close>

theorem handleSubmitSingleEval_snapshot:
  assumes "reachable s" and "truthy (generatedImage (ui s))"
  shows "\<exists>mid r.
     handleSubmitSingleEval now (ui s) = setPhase AB_TEST mid \<and>
     phase mid = phase (ui s) \<and>
     singleEvals (session mid) = singleEvals (session (ui s)) @ [r] \<and>
     singleEvals (session (handleSubmitSingleEval now (ui s))) =
       singleEvals (session (ui s)) @ [r] \<and>
     abTests (session (handleSubmitSingleEval now (ui s))) = abTests (session (ui s)) \<and>
     se_prompt r = prompt (ui s) \<and> generatedImage (ui s) = Some (se_image r) \<and>
     feedback r = textFeedback (ui s) \<and> se_timestamp r = now \<and>
     length (se_metrics r) = 4 \<and>
     recorded_metrics (ui s) r = shown_metrics (ui s) \<and>
     recorded_metrics (handleSubmitSingleEval now (ui s)) r = shown_metrics (ui s) \<and>
     shown_metrics (handleSubmitSingleEval now (ui s)) = INITIAL_METRICS_LITERAL \<and>
     map score (shown_metrics (handleSubmitSingleEval now (ui s))) = [3, 3, 3, 3] \<and>
     phase (handleSubmitSingleEval now (ui s)) = AB_TEST"
  using reachable_wf_app [OF assms(1)] assms(2) by (rule handleSubmitSingleEval_wf_snapshot)

theorem handleSubmitSingleEval_snapshot_witness:
  "reachable rated_state \<and> truthy (generatedImage (ui rated_state)) \<and>
   map score (shown_metrics (ui rated_state)) = [3, 9 / 2, 3, 3] \<and>
   map score (recorded_metrics (handleSubmitSingleEval 1700000000000 (ui rated_state))
     (last (singleEvals (session (handleSubmitSingleEval 1700000000000 (ui rated_state)))))) =
     [3, 9 / 2, 3, 3] \<and>
   map score (shown_metrics (handleSubmitSingleEval 1700000000000 (ui rated_state))) =
     [3, 3, 3, 3] \<and>
   phase (handleSubmitSingleEval 1700000000000 (ui rated_state)) = AB_TEST"
proof -
  let ?st = "ui rated_state"
  have t: "truthy (generatedImage ?st)"
    by (simp add: ui_rated_state truthy_def example_image_nonempty)
  have s: "map score (shown_metrics ?st) = [3, 9 / 2, 3, 3]"
    by (simp add: ui_rated_state shown_metrics_def INITIAL_METRICS_def
        INITIAL_METRICS_LITERAL_def)
  have e: "singleEvals (session ?st) = []"
    by (simp add: ui_rated_state)
  from handleSubmitSingleEval_snapshot [OF reachable_rated_state t, of 1700000000000]
  obtain r where
    r: "singleEvals (session (handleSubmitSingleEval 1700000000000 ?st)) =
          singleEvals (session ?st) @ [r]"
      "recorded_metrics (handleSubmitSingleEval 1700000000000 ?st) r = shown_metrics ?st"
      "map score (shown_metrics (handleSubmitSingleEval 1700000000000 ?st)) = [3, 3, 3, 3]"
      "phase (handleSubmitSingleEval 1700000000000 ?st) = AB_TEST"
    by (elim exE conjE)
  from r(1) e have "last (singleEvals (session (handleSubmitSingleEval 1700000000000 ?st))) = r"
    by simp
  with r s t reachable_rated_state show ?thesis
    by simp
qed

section \<open>The error message after a failed paired generation\<close>

lemma error_banner_AB_TEST: "phase st = AB_TEST \<Longrightarrow> error_banner st = None"
  by (simp add: error_banner_def)

text \<open>
  The upload flow, when the image is there and the intent is not blank: the submission
  starts the generation for the intent and the image; the pair, when it arrives, is set
  in AB_TEST; a failure leads back to USER_INPUT, whose page shows the message.
\<close>

lemma general_submit_outcomes:
  assumes "truthy (uploadedImage st)" and "trim (prompt st) \<noteq> []"
  shows "handleGeneralUserSubmit st =
      (setPhase AB_TEST (setLoading True st), Some (prompt st, uploadedImage st)) \<and>
    (\<forall>pr. outcome (generateComparisonPair svc ord (prompt st) (uploadedImage st)) = Inr pr \<longrightarrow>
       phase (handleGeneralUserSubmit_run svc ord st) = AB_TEST \<and>
       comparisonImages (handleGeneralUserSubmit_run svc ord st) =
         Some \<lparr>imgA = imageA pr, imgB = imageB pr\<rparr> \<and>
       imageA pr \<noteq> [] \<and> imageB pr \<noteq> []) \<and>
    (\<forall>e. outcome (generateComparisonPair svc ord (prompt st) (uploadedImage st)) = Inl e \<longrightarrow>
       phase (handleGeneralUserSubmit_run svc ord st) = USER_INPUT \<and>
       error (handleGeneralUserSubmit_run svc ord st) = Some PROCESS_FAILED \<and>
       error_banner (handleGeneralUserSubmit_run svc ord st) = Some PROCESS_FAILED \<and>
       comparisonImages (handleGeneralUserSubmit_run svc ord st) = comparisonImages st)"
proof -
  have start: "handleGeneralUserSubmit st =
      (setPhase AB_TEST (setLoading True st), Some (prompt st, uploadedImage st))"
    using assms by (simp add: handleGeneralUserSubmit_def)
  then have run: "handleGeneralUserSubmit_run svc ord st =
      handleGeneralUserSubmit_settled
        (outcome (generateComparisonPair svc ord (prompt st) (uploadedImage st)))
        (setPhase AB_TEST (setLoading True st))"
    by (simp add: handleGeneralUserSubmit_run_def)
  have ok: "phase (handleGeneralUserSubmit_run svc ord st) = AB_TEST \<and>
       comparisonImages (handleGeneralUserSubmit_run svc ord st) =
         Some \<lparr>imgA = imageA pr, imgB = imageB pr\<rparr> \<and>
       imageA pr \<noteq> [] \<and> imageB pr \<noteq> []"
    if "outcome (generateComparisonPair svc ord (prompt st) (uploadedImage st)) = Inr pr" for pr
    using that generateComparisonPair_populated [OF that]
    by (simp add: run handleGeneralUserSubmit_settled_def setters)
  have ko: "phase (handleGeneralUserSubmit_run svc ord st) = USER_INPUT \<and>
       error (handleGeneralUserSubmit_run svc ord st) = Some PROCESS_FAILED \<and>
       error_banner (handleGeneralUserSubmit_run svc ord st) = Some PROCESS_FAILED \<and>
       comparisonImages (handleGeneralUserSubmit_run svc ord st) = comparisonImages st"
    if "outcome (generateComparisonPair svc ord (prompt st) (uploadedImage st)) = Inl e" for e
    using that
    by (simp add: run handleGeneralUserSubmit_settled_def setters error_banner_def truthy_def
        PROCESS_FAILED_def)
  from start ok ko show ?thesis
    by blast
qed

text \<open>
  The professional flow: a failure sets the message and leaves the phase where it was,
  and in AB_TEST no page shows the message.
\<close>

lemma professional_failure:
  assumes "outcome (generateComparisonPair svc ord (testPrompt rnd st) None) = Inl e"
  shows "phase (handleStartProfessionalABTest_run svc ord rnd st) = phase st \<and>
    error (handleStartProfessionalABTest_run svc ord rnd st) = Some COMPARE_FAILED \<and>
    comparisonImages (handleStartProfessionalABTest_run svc ord rnd st) = comparisonImages st \<and>
    (phase st = AB_TEST \<longrightarrow>
       error_banner (handleStartProfessionalABTest_run svc ord rnd st) = None)"
  using assms
  by (simp add: handleStartProfessionalABTest_run_def handleStartProfessionalABTest_def
      handleStartProfessionalABTest_settled_def setters error_banner_def)

lemma pair_failing_service_image:
  "outcome (generateComparisonPair failing_service ord p (Some example_image)) =
     Inl (ServiceError (str ''503''))"
  by (simp add: generateComparisonPair_def generateTestImage_def build_parts_def
      parseBase64_example_image example_image_nonempty failing_service_def promise_all_def
      Let_def split: settle_order.splits)

lemma fields_professional_ab_state:
  "phase (ui professional_ab_state) = AB_TEST"
  "comparisonImages (ui professional_ab_state) = None"
  "loading (ui professional_ab_state) = False"
  "role (session (ui professional_ab_state)) = DESIGNER"
  by (simp_all add: professional_ab_state_def ui_rated_state handleSubmitSingleEval_def
      fresh_metrics_def setters Let_def example_image_nonempty)

lemma reachable_professional_ab_state: "reachable professional_ab_state"
  unfolding professional_ab_state_def
  by (intro reachable_fire reachable_rated_state)
    (simp add: ui_rated_state truthy_def example_image_nonempty)

text \<open>
  Claim C7 fails on the professional flow. A designer on the start panel of AB_TEST
  starts the comparison and the service rejects both requests: the handler sets the
  message of its catch block and the phase stays AB_TEST, but the page of AB_TEST does
  not render the message, so nothing is shown. The upload flow, failing on the same
  service, ends on the page of USER_INPUT, which shows its message.
\<close>

theorem professional_failure_not_shown:
  "reachable professional_ab_state \<and>
   enabled (ClickStartAB 0) professional_ab_state \<and>
   outcome (generateComparisonPair failing_service A_first
     (testPrompt 0 (ui professional_ab_state)) None) = Inl (ServiceError (str ''503'')) \<and>
   phase (handleStartProfessionalABTest_run failing_service A_first 0
     (ui professional_ab_state)) = AB_TEST \<and>
   error (handleStartProfessionalABTest_run failing_service A_first 0
     (ui professional_ab_state)) = Some COMPARE_FAILED \<and>
   error_banner (handleStartProfessionalABTest_run failing_service A_first 0
     (ui professional_ab_state)) = None \<and>
   phase (handleGeneralUserSubmit_run failing_service A_first (ui upload_state)) = USER_INPUT \<and>
   error_banner (handleGeneralUserSubmit_run failing_service A_first (ui upload_state)) =
     Some PROCESS_FAILED"
proof -
  have en: "enabled (ClickStartAB 0) professional_ab_state"
    by (simp add: fields_professional_ab_state start_panel_shown_def)
  have pro: "outcome (generateComparisonPair failing_service A_first
      (testPrompt 0 (ui professional_ab_state)) None) = Inl (ServiceError (str ''503''))"
    by (rule pair_failing_service)
  have up: "truthy (uploadedImage (ui upload_state))" "trim (prompt (ui upload_state)) \<noteq> []"
    "outcome (generateComparisonPair failing_service A_first (prompt (ui upload_state))
       (uploadedImage (ui upload_state))) = Inl (ServiceError (str ''503''))"
    by (simp_all add: ui_upload_state truthy_def example_image_nonempty trim_winter
        winter_nonempty pair_failing_service_image)
  from professional_failure [OF pro] general_submit_outcomes [OF up(1,2)] up(3) en pro
    reachable_professional_ab_state fields_professional_ab_state(1)
  show ?thesis
    by simp
qed

section \<open>The choices on the comparison page\<close>

lemma trim_blank_iff: "trim s = [] \<longleftrightarrow> list_all white_space s"
proof
  assume "trim s = []"
  then have all: "\<forall>x \<in> set (dropWhile white_space s). white_space x"
    by (simp add: trim_def dropWhile_eq_Nil_conv)
  have "dropWhile white_space s = []"
  proof (rule ccontr)
    assume ne: "dropWhile white_space s \<noteq> []"
    then have "\<not> white_space (hd (dropWhile white_space s))"
      by (rule hd_dropWhile)
    moreover have "hd (dropWhile white_space s) \<in> set (dropWhile white_space s)"
      using ne by simp
    ultimately show False
      using all by blast
  qed
  then show "list_all white_space s"
    by (simp add: dropWhile_eq_Nil_conv list_all_iff)
next
  assume "list_all white_space s"
  then have d: "dropWhile white_space s = []"
    by (simp add: dropWhile_eq_Nil_conv list_all_iff)
  show "trim s = []"
    unfolding trim_def d by simp
qed

text \<open>
  Claim C6, as amended. In every state a session can reach that is in AB_TEST with a
  comparison pair: when every character of the feedback text is white space (the empty
  text included), Equal cannot be chosen, while A and B can, and choosing one of them
  appends a record with that choice whose reasoning is the feedback text unchanged;
  when the feedback text has a character that is not white space, all three can be
  chosen.
\<close>

theorem equal_gated_by_feedback:
  assumes "reachable s" and "phase (ui s) = AB_TEST" and "comparisonImages (ui s) = Some c"
  shows "(list_all white_space (textFeedback (ui s)) \<longrightarrow>
      \<not> enabled (Select Pick_Equal now) s \<and> step (Select Pick_Equal now) s = None \<and>
      (\<forall>x. x = Pick_A \<or> x = Pick_B \<longrightarrow>
         enabled (Select x now) s \<and>
         (\<exists>s' r. step (Select x now) s = Some s' \<and>
            abTests (session (ui s')) = abTests (session (ui s)) @ [r] \<and>
            selectedImage r = x \<and> reasoning r = textFeedback (ui s)))) \<and>
    (\<not> list_all white_space (textFeedback (ui s)) \<longrightarrow>
      enabled (Select Pick_A now) s \<and> enabled (Select Pick_B now) s \<and>
      enabled (Select Pick_Equal now) s)"
proof -
  from assms(1) have "session_inv s"
    by (rule reachable_session_inv)
  with assms(3) have "\<not> loading (ui s)"
    by (simp add: session_inv_def)
  with assms(2,3) have shown: "selection_panel_shown (ui s)"
    by (simp add: selection_panel_shown_def)
  have rec: "abTests (session (ui (fire (Select x now) s))) = abTests (session (ui s)) @
      [\<lparr>ab_prompt = prompt (ui s), sourceImage = or_undefined (uploadedImage (ui s)),
        ab_imageA = imgA c, ab_imageB = imgB c, selectedImage = x,
        reasoning = textFeedback (ui s), ab_timestamp = now\<rparr>]" for x
    using assms(3) by (simp add: handleABSelection_def setters Let_def)
  show ?thesis
    using shown assms(2) rec
    by (auto simp: step_def button_clickable_def trim_blank_iff)
qed

lemma reachable_blank_state: "reachable blank_state"
  unfolding blank_state_def
  by (intro reachable_fire reachable_compare_state)
    (simp add: ui_compare_state selection_panel_shown_def)

lemma fields_blank_state:
  "phase (ui blank_state) = AB_TEST"
  "comparisonImages (ui blank_state) = Some \<lparr>imgA = example_image, imgB = example_image\<rparr>"
  "textFeedback (ui blank_state) = [0x20, 0x09, 0x0A]"
  "loading (ui blank_state) = False"
  "abTests (session (ui blank_state)) = []"
  by (simp_all add: blank_state_def ui_compare_state setters)

theorem equal_gated_by_feedback_witness:
  "reachable compare_state \<and> phase (ui compare_state) = AB_TEST \<and>
   textFeedback (ui compare_state) = [] \<and>
   step (Select Pick_Equal 1700000000000) compare_state = None \<and>
   enabled (Select Pick_A 1700000000000) compare_state \<and>
   enabled (Select Pick_B 1700000000000) compare_state \<and>
   reachable blank_state \<and> phase (ui blank_state) = AB_TEST \<and>
   textFeedback (ui blank_state) = [0x20, 0x09, 0x0A] \<and>
   step (Select Pick_Equal 1700000000000) blank_state = None \<and>
   enabled (Select Pick_A 1700000000000) blank_state \<and>
   reachable reasoned_state \<and> phase (ui reasoned_state) = AB_TEST \<and>
   textFeedback (ui reasoned_state) = str ''B is sharper'' \<and>
   enabled (Select Pick_Equal 1700000000000) reasoned_state"
proof -
  have c: "phase (ui compare_state) = AB_TEST"
    "comparisonImages (ui compare_state) = Some \<lparr>imgA = example_image, imgB = example_image\<rparr>"
    "textFeedback (ui compare_state) = []"
    by (simp_all add: ui_compare_state)
  have r: "phase (ui reasoned_state) = AB_TEST"
    "comparisonImages (ui reasoned_state) = Some \<lparr>imgA = example_image, imgB = example_image\<rparr>"
    "textFeedback (ui reasoned_state) = str ''B is sharper''"
    by (simp_all add: reasoned_state_def ui_compare_state setters)
  have t: "list_all white_space []" "list_all white_space [0x20, 0x09, 0x0A]"
    "\<not> list_all white_space (str ''B is sharper'')"
    by (simp_all add: white_space_def line_terminator_def str_def)
  from equal_gated_by_feedback [OF reachable_compare_state c(1,2), of 1700000000000]
    equal_gated_by_feedback [OF reachable_blank_state fields_blank_state(1,2), of 1700000000000]
    equal_gated_by_feedback [OF reachable_reasoned_state r(1,2), of 1700000000000]
    c r t fields_blank_state reachable_compare_state reachable_blank_state
    reachable_reasoned_state
  show ?thesis
    by simp
qed

text \<open>
  Claim C6 as stated fails on a feedback text of a space, a tab and a line feed: the
  text is not empty, yet Equal cannot be chosen, and choosing A records these three
  characters as the reasoning, not an empty reasoning.
\<close>

theorem equal_gated_counterexample:
  "reachable blank_state \<and> phase (ui blank_state) = AB_TEST \<and>
   comparisonImages (ui blank_state) = Some \<lparr>imgA = example_image, imgB = example_image\<rparr> \<and>
   textFeedback (ui blank_state) = [0x20, 0x09, 0x0A] \<and>
   textFeedback (ui blank_state) \<noteq> [] \<and>
   \<not> enabled (Select Pick_Equal 1700000000000) blank_state \<and>
   step (Select Pick_A 1700000000000) blank_state =
     Some (fire (Select Pick_A 1700000000000) blank_state) \<and>
   map reasoning (abTests (session (ui (fire (Select Pick_A 1700000000000) blank_state)))) =
     [[0x20, 0x09, 0x0A]] \<and>
   [0x20, 0x09, 0x0A] \<noteq> ([] :: jsstring)"
  using reachable_blank_state
  by (simp add: fields_blank_state step_def selection_panel_shown_def button_clickable_def
      handleABSelection_def setters Let_def chars)

end
